theory Spec2Isabelle
  imports
    Main
    "HOL-Library.Sublist"
    "HOL-Library.Multiset"
    "HOL-Library.Char_ord"
    "HOL-Library.List_Lexorder"
begin

section \<open>Strings as the code uses them\<close>

text \<open>
  JavaScript strings are modelled as \<^typ>\<open>string\<close> (lists of characters). The helpers
  below are the String.prototype methods the sources call, on ASCII text:
  \<open>toLowerCase\<close>/\<open>toUpperCase\<close> fold the letters A-Z/a-z only, \<open>trim\<close> strips the
  ASCII white space characters, \<open>split\<close> cuts at one separator character.
\<close>

definition isUpperChar :: "char \<Rightarrow> bool" where
  "isUpperChar c = (CHR ''A'' \<le> c \<and> c \<le> CHR ''Z'')"

definition isLowerChar :: "char \<Rightarrow> bool" where
  "isLowerChar c = (CHR ''a'' \<le> c \<and> c \<le> CHR ''z'')"

definition isDigitChar :: "char \<Rightarrow> bool" where
  "isDigitChar c = (CHR ''0'' \<le> c \<and> c \<le> CHR ''9'')"

definition lowerChar :: "char \<Rightarrow> char" where
  "lowerChar c = (if isUpperChar c then char_of (of_char c + (32::nat)) else c)"

definition upperChar :: "char \<Rightarrow> char" where
  "upperChar c = (if isLowerChar c then char_of (of_char c - (32::nat)) else c)"

definition toLowerCase :: "string \<Rightarrow> string" where
  "toLowerCase s = map lowerChar s"

definition isSpaceChar :: "char \<Rightarrow> bool" where
  "isSpaceChar c = (c = CHR '' '' \<or> c = CHR 0x09 \<or> c = CHR 0x0A \<or> c = CHR 0x0B
                    \<or> c = CHR 0x0C \<or> c = CHR 0x0D)"

definition trim :: "string \<Rightarrow> string" where
  "trim s = rev (dropWhile isSpaceChar (rev (dropWhile isSpaceChar s)))"

definition startsWith :: "string \<Rightarrow> string \<Rightarrow> bool" where
  "startsWith s p = prefix p s"

definition endsWith :: "string \<Rightarrow> string \<Rightarrow> bool" where
  "endsWith s e = suffix e s"

text \<open>\<open>s.includes(p)\<close>: \<open>p\<close> occurs somewhere in \<open>s\<close>.\<close>

fun includesStr :: "string \<Rightarrow> string \<Rightarrow> bool" where
  "includesStr [] p = (p = [])"
| "includesStr (c # s) p = (prefix p (c # s) \<or> includesStr s p)"

text \<open>\<open>s.split(c)\<close> for a one-character separator; the result is never empty.\<close>

fun split :: "char \<Rightarrow> string \<Rightarrow> string list" where
  "split c [] = [[]]"
| "split c (x # xs) =
     (if x = c then [] # split c xs
      else (case split c xs of
              [] \<Rightarrow> [[x]]
            | y # ys \<Rightarrow> (x # y) # ys))"

text \<open>\<open>parts.join(sep)\<close>.\<close>

fun join :: "string \<Rightarrow> string list \<Rightarrow> string" where
  "join sep [] = []"
| "join sep [x] = x"
| "join sep (x # y # ys) = x @ sep @ join sep (y # ys)"

text \<open>JavaScript truthiness of an optional string: \<open>undefined\<close>, \<open>null\<close> and \<open>""\<close> are falsy.\<close>

fun truthyStr :: "string option \<Rightarrow> bool" where
  "truthyStr None = False"
| "truthyStr (Some s) = (s \<noteq> [])"

text \<open>\<open>a || b\<close> on optional strings.\<close>

definition orStr :: "string option \<Rightarrow> string option \<Rightarrow> string option" where
  "orStr a b = (if truthyStr a then a else b)"

text \<open>\<open>String(n)\<close> for an integer, in decimal.\<close>

fun showNat :: "nat \<Rightarrow> string" where
  "showNat n = (if n < 10 then [''0123456789'' ! n]
                else showNat (n div 10) @ [''0123456789'' ! (n mod 10)])"

definition showInt :: "int \<Rightarrow> string" where
  "showInt i = (if i < 0 then CHR ''-'' # showNat (nat (- i)) else showNat (nat i))"

text \<open>\<open>s.padStart(2, "0")\<close>.\<close>

definition padStart2 :: "string \<Rightarrow> string" where
  "padStart2 s = replicate (2 - length s) CHR ''0'' @ s"

section \<open>Data model\<close>

text \<open>A parsed JSON document, as \<open>JSON.parse\<close> returns it and \<open>JSON.stringify\<close> reads it.
  Object members are kept in order; numbers carry an integer only, since no rule below
  looks at a number's value.\<close>

datatype json =
    JNull
  | JBool bool
  | JNum int
  | JStr string
  | JArr "json list"
  | JObj "(string \<times> json) list"

text \<open>\<open>RepoInfo\<close> of github.ts. The fields \<open>name\<close> and \<open>description\<close> carry the prefix
  \<open>repo_\<close> because the override document has fields of the same names; \<open>null\<close> is
  \<open>None\<close>.\<close>

record RepoInfo =
  repo_name :: string
  fullName :: string
  repo_description :: "string option"
  url :: string
  homepage :: "string option"
  topics :: "string list"
  language :: "string option"
  archived :: bool
  pushedAt :: string
  defaultBranch :: string

datatype Status = Completed | InProgress | Archived

datatype GameType = UnityWebgl | Itch

record Game =
  game_type :: GameType
  game_url :: string

record Media =
  video :: "string option"
  website :: "string option"
  pdf :: "string option"
  game :: "Game option"

record Links =
  liveDemo :: "string option"
  docs :: "string option"

text \<open>\<open>PortfolioConfig\<close> of schema.ts (the type inferred from \<open>portfolioConfigSchema\<close>):
  an absent field is \<open>None\<close>.\<close>

record PortfolioConfig =
  name :: string
  shortDescription :: "string option"
  description :: "string option"
  category :: "string option"
  technologies :: "string list option"
  status :: "Status option"
  dateCompleted :: "string option"
  models :: "string list option"
  images :: "string list option"
  thumbnail :: "string option"
  media :: "Media option"
  links :: "Links option"
  featured :: "bool option"
  exclude :: "bool option"

text \<open>The entry object that generate.ts builds at run time. On the override path it is
  \<open>{...result.data, github, ...}\<close>, so it carries every field of the override document
  (also \<open>thumbnail\<close> and \<open>exclude\<close>) and adds \<open>github\<close>.\<close>

record PortfolioEntry = PortfolioConfig +
  github :: string

section \<open>Date and clock of the runtime\<close>

text \<open>
  The Date object of the JavaScript runtime is a parameter of the model:
  \<open>parseDate s\<close> is the time value of \<open>new Date(s)\<close> (\<open>None\<close> for an Invalid Date, whose
  time value is NaN), \<open>oneYearAgo\<close> is the time value of the current instant with the
  year decreased by one, \<open>getFullYear\<close> and \<open>getMonth\<close> read a time value in the
  local time zone.

  So is the collation of the runtime: \<open>localeCompare a b\<close> is the number that
  \<open>a.localeCompare(b)\<close> returns (negative, zero or positive). The language leaves the
  order to the implementation and its default locale; it is not the order of the code
  units (the usual collations put \<open>a\<close> before \<open>B\<close>).
\<close>

record clock =
  parseDate :: "string \<Rightarrow> int option"
  oneYearAgo :: int
  getFullYear :: "int \<Rightarrow> int"
  getMonth :: "int \<Rightarrow> nat"
  localeCompare :: "string \<Rightarrow> string \<Rightarrow> int"

section \<open>Status inference\<close>

text \<open>\<open>pushed < oneYearAgo\<close> on two Date objects compares their time values; a comparison
  with NaN is false.\<close>

definition dateBefore :: "int option \<Rightarrow> int \<Rightarrow> bool" where
  "dateBefore d t = (case d of None \<Rightarrow> False | Some v \<Rightarrow> v < t)"

text \<open>\<open>inferStatus\<close> of generate.ts; the one of web/src/lib/portfolio.ts has the same body.\<close>

definition inferStatus :: "clock \<Rightarrow> RepoInfo \<Rightarrow> Status" where
  "inferStatus ck repo =
     (if archived repo then Archived
      else if dateBefore (parseDate ck (pushedAt repo)) (oneYearAgo ck) then Archived
      else Completed)"

text \<open>\<open>inferStatus\<close> of detectors/metadata-detector.ts. Its argument is \<open>null\<close> (\<open>None\<close>)
  or a Date object, which may itself be an Invalid Date (\<open>Some None\<close>).\<close>

definition inferStatusLocal :: "clock \<Rightarrow> int option option \<Rightarrow> Status" where
  "inferStatusLocal ck lastCommitDate =
     (case lastCommitDate of
        None \<Rightarrow> Completed
      | Some d \<Rightarrow> if dateBefore d (oneYearAgo ck) then Archived else Completed)"

text \<open>The part of \<open>detectMetadata\<close> that computes the status: \<open>lastCommitStr\<close> is the
  trimmed output of \<open>git log -1 --format=%ci\<close>, or \<open>null\<close> when the command fails.\<close>

definition detectStatus :: "clock \<Rightarrow> string option \<Rightarrow> Status" where
  "detectStatus ck lastCommitStr =
     inferStatusLocal ck
       (case lastCommitStr of
          None \<Rightarrow> None
        | Some s \<Rightarrow> if s = [] then None else Some (parseDate ck s))"

section \<open>Technology and category inference (generate.ts)\<close>

text \<open>The own properties of the \<open>topicMap\<close> object of \<open>inferTechFromLanguage\<close>
  (\<open>TOPIC_MAP\<close> in web/src/lib/portfolio.ts has the same members).\<close>

definition topicMap :: "(string \<times> string) list" where
  "topicMap =
     [(''react'', ''React''), (''nextjs'', ''Next.js''), (''vue'', ''Vue''),
      (''angular'', ''Angular''), (''svelte'', ''Svelte''), (''typescript'', ''TypeScript''),
      (''python'', ''Python''), (''rust'', ''Rust''), (''go'', ''Go''),
      (''machine-learning'', ''Machine Learning''), (''three-js'', ''Three.js''),
      (''threejs'', ''Three.js''), (''tailwindcss'', ''Tailwind CSS''),
      (''docker'', ''Docker''), (''kubernetes'', ''Kubernetes''), (''graphql'', ''GraphQL''),
      (''tensorflow'', ''TensorFlow''), (''pytorch'', ''PyTorch'')]"

text \<open>\<open>topicMap\<close> is a plain object, so \<open>topicMap[topic]\<close> also finds the properties that
  every object inherits from \<open>Object.prototype\<close>. These are the names of those
  properties; the value of each is a function (for \<open>__proto__\<close> the prototype object),
  which is truthy and is not a string.\<close>

definition objectPrototype :: "string list" where
  "objectPrototype =
     [''constructor'', ''__defineGetter__'', ''__defineSetter__'', ''hasOwnProperty'',
      ''__lookupGetter__'', ''__lookupSetter__'', ''isPrototypeOf'',
      ''propertyIsEnumerable'', ''toString'', ''valueOf'', ''__proto__'', ''toLocaleString'']"

text \<open>What a \<open>techs\<close> array can hold: a label, or the inherited property of a name.\<close>

datatype techValue = Label string | Inherited string

text \<open>\<open>topicMap[topic]\<close>: an own member, else an inherited one, else \<open>undefined\<close>.\<close>

definition topicValue :: "string \<Rightarrow> techValue option" where
  "topicValue topic =
     (case map_of topicMap topic of
        Some l \<Rightarrow> Some (Label l)
      | None \<Rightarrow> if topic \<in> set objectPrototype then Some (Inherited topic) else None)"

text \<open>The loop \<open>for (const topic of topics) if (topicMap[topic]) techs.push(topicMap[topic])\<close>
  on the values.\<close>

fun pushTopicValues :: "techValue list \<Rightarrow> string list \<Rightarrow> techValue list" where
  "pushTopicValues techs [] = techs"
| "pushTopicValues techs (topic # rest) =
     pushTopicValues (case topicValue topic of
                        None \<Rightarrow> techs
                      | Some v \<Rightarrow> techs @ [v]) rest"

text \<open>The same loop on strings. It is the loop of the code when no topic names an
  inherited property (lemma \<open>pushTopicValues_labels\<close>); the entries below hold strings
  and are the entries of the code for such topics.\<close>

fun pushTopics :: "string list \<Rightarrow> string list \<Rightarrow> string list" where
  "pushTopics techs [] = techs"
| "pushTopics techs (topic # rest) =
     pushTopics (case map_of topicMap topic of
                   None \<Rightarrow> techs
                 | Some t \<Rightarrow> techs @ [t]) rest"

text \<open>\<open>[...new Set(xs)]\<close>: a Set keeps its members in insertion order, and adding a member
  that is already there changes nothing.\<close>

definition setAdd :: "'a list \<Rightarrow> 'a \<Rightarrow> 'a list" where
  "setAdd s x = (if x \<in> set s then s else s @ [x])"

definition spreadSet :: "'a list \<Rightarrow> 'a list" where
  "spreadSet xs = foldl setAdd [] xs"

text \<open>\<open>inferTechFromLanguage\<close> (and \<open>inferTech\<close> of the web variant) on the values.\<close>

definition inferTechValues :: "string option \<Rightarrow> string list \<Rightarrow> techValue list" where
  "inferTechValues lang tps =
     spreadSet (pushTopicValues (case lang of
                                   None \<Rightarrow> []
                                 | Some l \<Rightarrow> if l = [] then [] else [Label l]) tps)"

text \<open>\<open>inferTechFromLanguage\<close> on strings, for topics that name no inherited property.\<close>

definition inferTechFromLanguage :: "string option \<Rightarrow> string list \<Rightarrow> string list" where
  "inferTechFromLanguage lang tps =
     spreadSet (pushTopics (case lang of
                              None \<Rightarrow> []
                            | Some l \<Rightarrow> if l = [] then [] else [l]) tps)"

text \<open>The labels in the order they are detected, before duplicates are dropped: the
  language if there is one, then the label of every topic that has one.\<close>

definition detectedLabels :: "string option \<Rightarrow> string list \<Rightarrow> string list" where
  "detectedLabels lang tps =
     (case lang of None \<Rightarrow> [] | Some l \<Rightarrow> if l = [] then [] else [l])
     @ List.map_filter (map_of topicMap) tps"

definition inferCategoryFromTopics :: "string list \<Rightarrow> string option \<Rightarrow> string" where
  "inferCategoryFromTopics tps lang =
     (let has = (\<lambda>x. x \<in> set tps) in
      if has ''game'' \<or> has ''gamedev'' \<or> has ''unity'' \<or> has ''unreal''
        then ''Game Development''
      else if has ''machine-learning'' \<or> has ''deep-learning'' \<or> has ''ai''
        then ''Machine Learning''
      else if has ''robotics'' \<or> has ''arduino'' \<or> has ''embedded''
        then ''Robotics''
      else if has ''three-js'' \<or> has ''threejs'' \<or> has ''webgl'' \<or> has ''3d''
        then ''Web 3D''
      else if has ''react'' \<or> has ''vue'' \<or> has ''angular'' \<or> has ''nextjs'' \<or> has ''webapp''
        then ''Web App''
      else if has ''api'' \<or> has ''backend'' \<or> has ''server''
        then ''Backend/API''
      else if has ''mobile'' \<or> has ''react-native'' \<or> has ''flutter''
        then ''Mobile App''
      else if has ''cli'' \<or> has ''tool'' then ''CLI Tool''
      else if lang = Some ''C#'' then ''Game Development''
      else if lang = Some ''Rust'' then ''Systems Programming''
      else if lang = Some ''Go'' then ''Backend/API''
      else if lang = Some ''Python'' then ''Python''
      else ''Software'')"

text \<open>\<open>toYearMonth\<close> (the same in generate.ts, portfolio.ts and the metadata detector).\<close>

definition toYearMonth :: "clock \<Rightarrow> string \<Rightarrow> string" where
  "toYearMonth ck dateStr =
     (case parseDate ck dateStr of
        None \<Rightarrow> []
      | Some d \<Rightarrow> showInt (getFullYear ck d) @ ''-'' @ padStart2 (showNat (getMonth ck d + 1)))"

section \<open>The override schema and its validator (schema.ts)\<close>

text \<open>
  \<open>validateConfig\<close> runs \<open>portfolioConfigSchema.safeParse\<close> of the zod library and renders
  each issue as \<open>path.join(".") + ": " + message\<close>. The schema is the one declared in
  schema.ts. What zod does with it is modelled as follows: an object schema visits its
  keys in declaration order and collects the issues of all of them; an \<open>optional\<close> key
  accepts a missing member; unknown members are dropped from the result. The wording of
  zod's built-in messages and its test for a well-formed URL are parameters; the message
  of the \<open>dateCompleted\<close> pattern is the one written in the schema.
\<close>

datatype zcode = Required | InvalidType | TooSmall | InvalidEnumValue | InvalidUrl

record zod =
  message :: "zcode \<Rightarrow> string"
  isUrl :: "string \<Rightarrow> bool"

type_synonym issue = "string list \<times> string"

type_synonym 'a parsed = "issue list \<times> 'a option"

text \<open>\<open>data[key]\<close> on a parsed document; a repeated key keeps its last value, as
  \<open>JSON.parse\<close> does, and anything but an object has no members.\<close>

fun jget :: "string \<Rightarrow> json \<Rightarrow> json option" where
  "jget k (JObj kvs) = map_of (rev kvs) k"
| "jget k _ = None"

definition optional :: "(json \<Rightarrow> 'a parsed) \<Rightarrow> json option \<Rightarrow> 'a parsed" where
  "optional p v = (case v of None \<Rightarrow> ([], None) | Some j \<Rightarrow> p j)"

fun zString :: "zod \<Rightarrow> string list \<Rightarrow> json \<Rightarrow> string parsed" where
  "zString z path (JStr s) = ([], Some s)"
| "zString z path _ = ([(path, message z InvalidType)], None)"

text \<open>\<open>z.string().min(1)\<close>, not optional.\<close>

fun zName :: "zod \<Rightarrow> string list \<Rightarrow> json option \<Rightarrow> string parsed" where
  "zName z path None = ([(path, message z Required)], None)"
| "zName z path (Some (JStr s)) =
     (if length s < 1 then ([(path, message z TooSmall)], None) else ([], Some s))"
| "zName z path (Some _) = ([(path, message z InvalidType)], None)"

fun zBoolean :: "zod \<Rightarrow> string list \<Rightarrow> json \<Rightarrow> bool parsed" where
  "zBoolean z path (JBool b) = ([], Some b)"
| "zBoolean z path _ = ([(path, message z InvalidType)], None)"

fun zUrl :: "zod \<Rightarrow> string list \<Rightarrow> json \<Rightarrow> string parsed" where
  "zUrl z path (JStr s) =
     (if isUrl z s then ([], Some s) else ([(path, message z InvalidUrl)], None))"
| "zUrl z path _ = ([(path, message z InvalidType)], None)"

text \<open>The pattern \<open>/^\d{4}-\d{2}$/\<close>.\<close>

definition matchesYearMonth :: "string \<Rightarrow> bool" where
  "matchesYearMonth s =
     (length s = 7 \<and> list_all isDigitChar (take 4 s) \<and> s ! 4 = CHR ''-''
      \<and> list_all isDigitChar (drop 5 s))"

fun zDateCompleted :: "zod \<Rightarrow> string list \<Rightarrow> json \<Rightarrow> string parsed" where
  "zDateCompleted z path (JStr s) =
     (if matchesYearMonth s then ([], Some s)
      else ([(path, ''Must be YYYY-MM format'')], None))"
| "zDateCompleted z path _ = ([(path, message z InvalidType)], None)"

fun zStatus :: "zod \<Rightarrow> string list \<Rightarrow> json \<Rightarrow> Status parsed" where
  "zStatus z path (JStr s) =
     (if s = ''Completed'' then ([], Some Completed)
      else if s = ''In Progress'' then ([], Some InProgress)
      else if s = ''Archived'' then ([], Some Archived)
      else ([(path, message z InvalidEnumValue)], None))"
| "zStatus z path _ = ([(path, message z InvalidType)], None)"

fun zGameType :: "zod \<Rightarrow> string list \<Rightarrow> json option \<Rightarrow> GameType parsed" where
  "zGameType z path None = ([(path, message z Required)], None)"
| "zGameType z path (Some (JStr s)) =
     (if s = ''unity-webgl'' then ([], Some UnityWebgl)
      else if s = ''itch'' then ([], Some Itch)
      else ([(path, message z InvalidEnumValue)], None))"
| "zGameType z path (Some _) = ([(path, message z InvalidType)], None)"

text \<open>\<open>z.array(z.string())\<close>: the elements are checked in order, each under its index.\<close>

fun zStringElems :: "zod \<Rightarrow> string list \<Rightarrow> nat \<Rightarrow> json list \<Rightarrow> issue list" where
  "zStringElems z path i [] = []"
| "zStringElems z path i (x # xs) =
     fst (zString z (path @ [showNat i]) x) @ zStringElems z path (Suc i) xs"

fun jstrings :: "json list \<Rightarrow> string list" where
  "jstrings [] = []"
| "jstrings (JStr s # xs) = s # jstrings xs"
| "jstrings (_ # xs) = jstrings xs"

fun zStringArray :: "zod \<Rightarrow> string list \<Rightarrow> json \<Rightarrow> (string list) parsed" where
  "zStringArray z path (JArr xs) = (zStringElems z path 0 xs, Some (jstrings xs))"
| "zStringArray z path _ = ([(path, message z InvalidType)], None)"

fun zRequiredUrl :: "zod \<Rightarrow> string list \<Rightarrow> json option \<Rightarrow> string parsed" where
  "zRequiredUrl z path None = ([(path, message z Required)], None)"
| "zRequiredUrl z path (Some j) = zUrl z path j"

fun gameSchema :: "zod \<Rightarrow> string list \<Rightarrow> json \<Rightarrow> Game parsed" where
  "gameSchema z path (JObj kvs) =
     (let t = zGameType z (path @ [''type'']) (jget ''type'' (JObj kvs));
          u = zRequiredUrl z (path @ [''url'']) (jget ''url'' (JObj kvs))
      in (fst t @ fst u,
          case (snd t, snd u) of
            (Some ty, Some ur) \<Rightarrow> Some \<lparr> game_type = ty, game_url = ur \<rparr>
          | _ \<Rightarrow> None))"
| "gameSchema z path _ = ([(path, message z InvalidType)], None)"

fun mediaSchema :: "zod \<Rightarrow> string list \<Rightarrow> json \<Rightarrow> Media parsed" where
  "mediaSchema z path (JObj kvs) =
     (let v = optional (zUrl z (path @ [''video''])) (jget ''video'' (JObj kvs));
          w = optional (zUrl z (path @ [''website''])) (jget ''website'' (JObj kvs));
          p = optional (zString z (path @ [''pdf''])) (jget ''pdf'' (JObj kvs));
          g = optional (gameSchema z (path @ [''game''])) (jget ''game'' (JObj kvs))
      in (fst v @ fst w @ fst p @ fst g,
          Some \<lparr> video = snd v, website = snd w, pdf = snd p, game = snd g \<rparr>))"
| "mediaSchema z path _ = ([(path, message z InvalidType)], None)"

fun linksSchema :: "zod \<Rightarrow> string list \<Rightarrow> json \<Rightarrow> Links parsed" where
  "linksSchema z path (JObj kvs) =
     (let l = optional (zUrl z (path @ [''liveDemo''])) (jget ''liveDemo'' (JObj kvs));
          d = optional (zUrl z (path @ [''docs''])) (jget ''docs'' (JObj kvs))
      in (fst l @ fst d, Some \<lparr> liveDemo = snd l, docs = snd d \<rparr>))"
| "linksSchema z path _ = ([(path, message z InvalidType)], None)"

definition renderIssue :: "issue \<Rightarrow> string" where
  "renderIssue i = join ''.'' (fst i) @ '': '' @ snd i"

text \<open>\<open>portfolioConfigSchema.safeParse\<close>: the issues in key order, and the typed document.\<close>

definition configFields :: "zod \<Rightarrow> json \<Rightarrow> PortfolioConfig parsed" where
  "configFields z doc =
     (let n = zName z [''name''] (jget ''name'' doc);
          sd = optional (zString z [''shortDescription'']) (jget ''shortDescription'' doc);
          de = optional (zString z [''description'']) (jget ''description'' doc);
          ca = optional (zString z [''category'']) (jget ''category'' doc);
          te = optional (zStringArray z [''technologies'']) (jget ''technologies'' doc);
          st = optional (zStatus z [''status'']) (jget ''status'' doc);
          dc = optional (zDateCompleted z [''dateCompleted'']) (jget ''dateCompleted'' doc);
          mo = optional (zStringArray z [''models'']) (jget ''models'' doc);
          im = optional (zStringArray z [''images'']) (jget ''images'' doc);
          th = optional (zString z [''thumbnail'']) (jget ''thumbnail'' doc);
          me = optional (mediaSchema z [''media'']) (jget ''media'' doc);
          li = optional (linksSchema z [''links'']) (jget ''links'' doc);
          fe = optional (zBoolean z [''featured'']) (jget ''featured'' doc);
          ex = optional (zBoolean z [''exclude'']) (jget ''exclude'' doc)
      in (fst n @ fst sd @ fst de @ fst ca @ fst te @ fst st @ fst dc @ fst mo @ fst im
            @ fst th @ fst me @ fst li @ fst fe @ fst ex,
          case snd n of
            None \<Rightarrow> None
          | Some nm \<Rightarrow>
              Some \<lparr> name = nm, shortDescription = snd sd, description = snd de,
                     category = snd ca, technologies = snd te, status = snd st,
                     dateCompleted = snd dc, models = snd mo, images = snd im,
                     thumbnail = snd th, media = snd me, links = snd li,
                     featured = snd fe, exclude = snd ex \<rparr>))"

definition portfolioConfigSchema :: "zod \<Rightarrow> json \<Rightarrow> PortfolioConfig parsed" where
  "portfolioConfigSchema z data =
     (case data of
        JObj kvs \<Rightarrow> configFields z data
      | _ \<Rightarrow> ([([], message z InvalidType)], None))"

text \<open>\<open>validateConfig\<close>: \<open>Inr\<close> is \<open>{success: true, data}\<close>, \<open>Inl\<close> is
  \<open>{success: false, errors}\<close>.\<close>

definition validateConfig :: "zod \<Rightarrow> json \<Rightarrow> string list + PortfolioConfig" where
  "validateConfig z data =
     (case portfolioConfigSchema z data of
        ([], Some cfg) \<Rightarrow> Inr cfg
      | (issues, _) \<Rightarrow> Inl (map renderIssue issues))"

section \<open>The merge engine of generate.ts\<close>

subsection \<open>Description from the README (processRepo, lines 154-184)\<close>

text \<open>The loop over the README lines. It returns \<open>paragraphs\<close>; a \<open>break\<close> returns at
  once, a \<open>continue\<close> goes on with the next line.\<close>

fun readmeLoop :: "bool \<Rightarrow> string list \<Rightarrow> string list \<Rightarrow> string list" where
  "readmeLoop pastTitle paragraphs [] = paragraphs"
| "readmeLoop pastTitle paragraphs (line # rest) =
     (let trimmed = trim line in
      if startsWith trimmed ''#'' then
        (if pastTitle \<and> length paragraphs > 0 then paragraphs
         else readmeLoop True paragraphs rest)
      else if trimmed = [] \<or> startsWith trimmed ''[!['' \<or> startsWith trimmed ''<''
        then readmeLoop pastTitle paragraphs rest
      else
        (let paragraphs' = (if pastTitle then paragraphs @ [trimmed] else paragraphs) in
         if length paragraphs' \<ge> 3 then paragraphs'
         else readmeLoop pastTitle paragraphs' rest))"

definition isSentenceEnd :: "char \<Rightarrow> bool" where
  "isSentenceEnd c = (c = CHR ''.'' \<or> c = CHR ''!'' \<or> c = CHR ''?'')"

text \<open>\<open>text.match(/^[^.!?]+[.!?]/)\<close>: the longest run of characters other than
  \<open>.\<close>, \<open>!\<close>, \<open>?\<close> at the start must not be empty and must be followed by one of the
  three; \<open>match[0]\<close> is the run with that character.\<close>

definition matchFirstSentence :: "string \<Rightarrow> string option" where
  "matchFirstSentence s =
     (let run = takeWhile (\<lambda>c. \<not> isSentenceEnd c) s in
      if run = [] then None
      else (case dropWhile (\<lambda>c. \<not> isSentenceEnd c) s of
              [] \<Rightarrow> None
            | c # _ \<Rightarrow> Some (run @ [c])))"

text \<open>The pair \<open>(description, shortDescription)\<close> after the README block. \<open>length\<close> and
  \<open>slice\<close> of the code count the UTF-16 code units of a string, those of the model its
  characters; the two agree on the texts of the Basic Latin block, which the examples
  use.\<close>

definition describeRepo :: "string option \<Rightarrow> string option \<Rightarrow> string option \<times> string option" where
  "describeRepo repoDescription readmeRaw =
     (let description = orStr repoDescription None;
          shortDescription = description
      in case readmeRaw of
           None \<Rightarrow> (description, shortDescription)
         | Some raw \<Rightarrow>
             if raw = [] then (description, shortDescription)
             else
               (let paragraphs = readmeLoop False [] (split (CHR 0x0A) raw) in
                if \<not> length paragraphs > 0 then (description, shortDescription)
                else
                  (let readme = join '' '' paragraphs in
                   (case description of
                      None \<Rightarrow> Some readme
                    | Some d \<Rightarrow> if length readme > length d then Some readme else Some d,
                    case shortDescription of
                      Some s \<Rightarrow> Some s
                    | None \<Rightarrow>
                        (case matchFirstSentence readme of
                           Some m \<Rightarrow> Some (trim m)
                         | None \<Rightarrow> Some (take 120 readme))))))"

subsection \<open>Assets in the file tree (findAssetsInTree)\<close>

definition MODEL_EXTS :: "string list" where
  "MODEL_EXTS = [''.stl'', ''.gltf'', ''.glb'', ''.obj'', ''.fbx'', ''.3mf'']"

definition IMAGE_EXTS :: "string list" where
  "IMAGE_EXTS = [''.png'', ''.jpg'', ''.jpeg'', ''.gif'', ''.webp'', ''.svg'']"

definition IMAGE_DIRS :: "string list" where
  "IMAGE_DIRS = [''docs/'', ''assets/'', ''images/'', ''screenshots/'', ''media/'']"

text \<open>\<open>"." + file.split(".").pop()?.toLowerCase()\<close>.\<close>

definition fileExt :: "string \<Rightarrow> string" where
  "fileExt file = ''.'' @ toLowerCase (last (split (CHR ''.'') file))"

fun findAssetsLoop :: "string list \<Rightarrow> string list \<Rightarrow> string list \<Rightarrow> string list \<times> string list" where
  "findAssetsLoop mods imgs [] = (mods, imgs)"
| "findAssetsLoop mods imgs (file # rest) =
     (let ext = fileExt file;
          mods' = (if ext \<in> set MODEL_EXTS then mods @ [file] else mods);
          imgs' = (if ext \<in> set IMAGE_EXTS
                   then (if list_ex (\<lambda>d. startsWith file d) IMAGE_DIRS
                         then imgs @ [file] else imgs)
                   else imgs)
      in findAssetsLoop mods' imgs' rest)"

text \<open>The result is the pair \<open>(models, images)\<close>.\<close>

definition findAssetsInTree :: "string list \<Rightarrow> string list \<times> string list" where
  "findAssetsInTree files = findAssetsLoop [] [] files"

text \<open>The two filters of \<open>processRepo\<close> in web/src/lib/portfolio.ts (lines 199-200).\<close>

definition webModels :: "string list \<Rightarrow> string list" where
  "webModels tree = filter (\<lambda>f. list_ex (\<lambda>e. endsWith f e) MODEL_EXTS) tree"

definition webImages :: "string list \<Rightarrow> string list" where
  "webImages tree =
     filter (\<lambda>f. list_ex (\<lambda>e. endsWith f e) IMAGE_EXTS
                 \<and> list_ex (\<lambda>d. startsWith f d) IMAGE_DIRS) tree"

subsection \<open>processRepo\<close>

definition isWordChar :: "char \<Rightarrow> bool" where
  "isWordChar c = (isUpperChar c \<or> isLowerChar c \<or> isDigitChar c \<or> c = CHR ''_'')"

text \<open>\<open>.replace(/\b\w/g, c => c.toUpperCase())\<close>: the flag says whether the character
  before is a word character.\<close>

fun capitalizeWords :: "bool \<Rightarrow> string \<Rightarrow> string" where
  "capitalizeWords prev [] = []"
| "capitalizeWords prev (c # cs) =
     (if isWordChar c \<and> \<not> prev then upperChar c else c) # capitalizeWords (isWordChar c) cs"

definition cleanRepoName :: "string \<Rightarrow> string" where
  "cleanRepoName n =
     capitalizeWords False (map (\<lambda>c. if c = CHR ''-'' \<or> c = CHR ''_'' then CHR '' '' else c) n)"

text \<open>What the fetch and \<open>JSON.parse\<close> of \<open>.portfolio.json\<close> give: no content (the file is
  missing, empty or the request failed), content that \<open>JSON.parse\<close> rejects, or a parsed
  document.\<close>

datatype fetched = Absent | Malformed | Doc json

text \<open>The object returned for a valid override (lines 138-144):
  \<open>{...result.data, github, technologies, category, status}\<close>. An array and a status name
  are truthy, the empty string is not.\<close>

definition overrideEntry :: "clock \<Rightarrow> RepoInfo \<Rightarrow> PortfolioConfig \<Rightarrow> PortfolioEntry" where
  "overrideEntry ck repo data =
     (PortfolioConfig.extend data (PortfolioEntry.fields (url repo)))
       \<lparr> technologies :=
           (case technologies data of
              Some t \<Rightarrow> Some t
            | None \<Rightarrow> Some (inferTechFromLanguage (language repo) (topics repo))),
         category :=
           orStr (category data) (Some (inferCategoryFromTopics (topics repo) (language repo))),
         status :=
           (case status data of
              Some s \<Rightarrow> Some s
            | None \<Rightarrow> Some (inferStatus ck repo)) \<rparr>"

text \<open>The entry built by auto-detection (lines 152-212).\<close>

definition autoEntry :: "clock \<Rightarrow> RepoInfo \<Rightarrow> string option \<Rightarrow> string list \<Rightarrow> PortfolioEntry" where
  "autoEntry ck repo readmeRaw tree =
     (let ds = describeRepo (repo_description repo) readmeRaw;
          assets = findAssetsInTree tree
      in \<lparr> name = cleanRepoName (repo_name repo),
           shortDescription = snd ds,
           description = fst ds,
           category = Some (inferCategoryFromTopics (topics repo) (language repo)),
           technologies = Some (inferTechFromLanguage (language repo) (topics repo)),
           status = Some (inferStatus ck repo),
           dateCompleted = Some (toYearMonth ck (pushedAt repo)),
           models = (if length (fst assets) > 0 then Some (fst assets) else None),
           images = (if length (snd assets) > 0 then Some (snd assets) else None),
           thumbnail = None,
           media = None,
           links = (if truthyStr (homepage repo)
                    then Some \<lparr> liveDemo = homepage repo, docs = None \<rparr> else None),
           featured = None,
           exclude = None,
           github = url repo \<rparr>)"

text \<open>\<open>processRepo\<close>: its arguments after the repository are what the three requests
  return (the override file, \<open>README.md\<close>, the file tree). The declared result is
  \<open>PortfolioEntry | null\<close>.\<close>

definition processRepo ::
  "clock \<Rightarrow> zod \<Rightarrow> RepoInfo \<Rightarrow> fetched \<Rightarrow> string option \<Rightarrow> string list \<Rightarrow> PortfolioEntry option" where
  "processRepo ck z repo config readmeRaw tree =
     (case config of
        Doc parsed \<Rightarrow>
          (case validateConfig z parsed of
             Inr data \<Rightarrow> Some (overrideEntry ck repo data)
           | Inl errors \<Rightarrow> Some (autoEntry ck repo readmeRaw tree))
      | _ \<Rightarrow> Some (autoEntry ck repo readmeRaw tree))"

section \<open>Sorting, generating and formatting (generate.ts)\<close>

subsection \<open>The sort of the entries\<close>

text \<open>Truthiness of an optional boolean (\<open>undefined\<close> is falsy).\<close>

fun truthyBool :: "bool option \<Rightarrow> bool" where
  "truthyBool None = False"
| "truthyBool (Some b) = b"

text \<open>\<open>e.dateCompleted || ""\<close>.\<close>

definition dateKey :: "'a PortfolioConfig_scheme \<Rightarrow> string" where
  "dateKey e = (case dateCompleted e of None \<Rightarrow> [] | Some d \<Rightarrow> d)"

text \<open>The comparator passed to \<open>entries.sort\<close> (generate.ts lines 338-342, and the same
  function in the scan of the web page): \<open>(b.dateCompleted || "").localeCompare(a.dateCompleted || "")\<close>
  when the two entries are alike in \<open>featured\<close>.\<close>

definition compareEntries ::
  "clock \<Rightarrow> 'a PortfolioConfig_scheme \<Rightarrow> 'a PortfolioConfig_scheme \<Rightarrow> int" where
  "compareEntries ck a b =
     (if truthyBool (featured a) \<and> \<not> truthyBool (featured b) then - 1
      else if \<not> truthyBool (featured a) \<and> truthyBool (featured b) then 1
      else localeCompare ck (dateKey b) (dateKey a))"

text \<open>\<open>Array.prototype.sort(cmp)\<close>. The language requires the sort to be stable; the model
  is the insertion sort that puts an element before the first element it does not come
  after, so that elements the comparator calls equal keep their order.\<close>

fun insertBy :: "('a \<Rightarrow> 'a \<Rightarrow> int) \<Rightarrow> 'a \<Rightarrow> 'a list \<Rightarrow> 'a list" where
  "insertBy cmp x [] = [x]"
| "insertBy cmp x (y # ys) =
     (if cmp x y \<le> 0 then x # y # ys else y # insertBy cmp x ys)"

definition arraySort :: "('a \<Rightarrow> 'a \<Rightarrow> int) \<Rightarrow> 'a list \<Rightarrow> 'a list" where
  "arraySort cmp xs = foldr (insertBy cmp) xs []"

text \<open>What the sort needs of a collation, and what every collation gives: comparing a
  string with itself gives zero, exchanging the two strings exchanges the sign, the
  order is transitive, and the empty string comes before every other string.\<close>

definition consistentCollation :: "clock \<Rightarrow> bool" where
  "consistentCollation ck =
     ((\<forall>a. localeCompare ck a a = 0)
      \<and> (\<forall>a b. sgn (localeCompare ck a b) = - sgn (localeCompare ck b a))
      \<and> (\<forall>a b c. localeCompare ck a b \<le> 0 \<longrightarrow> localeCompare ck b c \<le> 0
                   \<longrightarrow> localeCompare ck a c \<le> 0)
      \<and> (\<forall>s. localeCompare ck [] s \<le> 0))"

text \<open>The strings a date field holds after validation (\<open>YYYY-MM\<close>) or after
  \<open>toYearMonth\<close> of a time stamp that does not parse (the empty string), and a collation
  that orders these strings as the lexicographic order of their characters does.\<close>

definition dateLike :: "string \<Rightarrow> bool" where
  "dateLike s = (s = [] \<or> matchesYearMonth s)"

definition lexicographicOnDates :: "clock \<Rightarrow> bool" where
  "lexicographicOnDates ck =
     (\<forall>a b. dateLike a \<longrightarrow> dateLike b \<longrightarrow> (localeCompare ck a b \<le> 0) = (a \<le> b))"

subsection \<open>generate\<close>

text \<open>The three requests of \<open>processRepo\<close>, by repository name (and branch).\<close>

record client =
  getFileContent :: "string \<Rightarrow> fetched"
  getReadme :: "string \<Rightarrow> string option"
  getRepoTree :: "string \<Rightarrow> string \<Rightarrow> string list"

text \<open>The loop of \<open>generate\<close> over the filtered repositories: an entry is pushed when
  \<open>processRepo\<close> returns one.\<close>

fun collectEntries :: "clock \<Rightarrow> zod \<Rightarrow> client \<Rightarrow> RepoInfo list \<Rightarrow> PortfolioEntry list" where
  "collectEntries ck z cl [] = []"
| "collectEntries ck z cl (repo # rest) =
     (case processRepo ck z repo (getFileContent cl (repo_name repo))
             (getReadme cl (repo_name repo))
             (getRepoTree cl (repo_name repo) (defaultBranch repo)) of
        None \<Rightarrow> collectEntries ck z cl rest
      | Some entry \<Rightarrow> entry # collectEntries ck z cl rest)"

text \<open>The entries that \<open>generate\<close> passes to \<open>formatOutput\<close>: the repositories named in
  \<open>--exclude\<close> and those whose name starts with a dot are dropped, the rest is processed
  and sorted.\<close>

definition generateEntries ::
  "clock \<Rightarrow> zod \<Rightarrow> client \<Rightarrow> string list \<Rightarrow> RepoInfo list \<Rightarrow> PortfolioEntry list" where
  "generateEntries ck z cl excl repos =
     arraySort (compareEntries ck)
       (collectEntries ck z cl
          (filter (\<lambda>r. repo_name r \<notin> set excl \<and> \<not> startsWith (repo_name r) ''.'') repos))"

subsection \<open>The three encodings\<close>

definition statusName :: "Status \<Rightarrow> string" where
  "statusName s = (case s of Completed \<Rightarrow> ''Completed'' | InProgress \<Rightarrow> ''In Progress''
                   | Archived \<Rightarrow> ''Archived'')"

text \<open>\<open>JSON.stringify\<close> writes a member for every property whose value is not
  \<open>undefined\<close>. The model gives the JSON value that is written (not its text): the
  members and their values are those of the code, listed in the order of the entry type;
  the order in which the code enumerates them (that of the spread of the validated
  document) is not modelled, and members are read by name.\<close>

definition member :: "string \<Rightarrow> ('a \<Rightarrow> json) \<Rightarrow> 'a option \<Rightarrow> (string \<times> json) list" where
  "member k f v = (case v of None \<Rightarrow> [] | Some x \<Rightarrow> [(k, f x)])"

definition jsonStrings :: "string list \<Rightarrow> json" where
  "jsonStrings xs = JArr (map JStr xs)"

definition gameJson :: "Game \<Rightarrow> json" where
  "gameJson g =
     JObj [(''type'', JStr (case game_type g of UnityWebgl \<Rightarrow> ''unity-webgl'' | Itch \<Rightarrow> ''itch'')),
           (''url'', JStr (game_url g))]"

definition mediaJson :: "Media \<Rightarrow> json" where
  "mediaJson m =
     JObj (member ''video'' JStr (video m) @ member ''website'' JStr (website m)
           @ member ''pdf'' JStr (pdf m) @ member ''game'' gameJson (game m))"

definition linksJson :: "Links \<Rightarrow> json" where
  "linksJson l = JObj (member ''liveDemo'' JStr (liveDemo l) @ member ''docs'' JStr (docs l))"

definition configMembers :: "'a PortfolioConfig_scheme \<Rightarrow> (string \<times> json) list" where
  "configMembers e =
     [(''name'', JStr (name e))]
     @ member ''shortDescription'' JStr (shortDescription e)
     @ member ''description'' JStr (description e)
     @ member ''category'' JStr (category e)
     @ member ''technologies'' jsonStrings (technologies e)
     @ member ''status'' (\<lambda>s. JStr (statusName s)) (status e)
     @ member ''dateCompleted'' JStr (dateCompleted e)
     @ member ''models'' jsonStrings (models e)
     @ member ''images'' jsonStrings (images e)
     @ member ''thumbnail'' JStr (thumbnail e)
     @ member ''media'' mediaJson (media e)
     @ member ''links'' linksJson (links e)
     @ member ''featured'' JBool (featured e)
     @ member ''exclude'' JBool (exclude e)"



definition entryJson :: "PortfolioEntry \<Rightarrow> json" where
  "entryJson e = JObj (configMembers e @ [(''github'', JStr (github e))])"

text \<open>\<open>JSON.stringify({ projects: entries }, null, 2)\<close>.\<close>

definition toJson :: "PortfolioEntry list \<Rightarrow> json" where
  "toJson entries = JObj [(''projects'', JArr (map entryJson entries))]"

text \<open>\<open>x?.length\<close> as a condition: the array is there and not empty.\<close>

fun hasLength :: "'a list option \<Rightarrow> bool" where
  "hasLength None = False"
| "hasLength (Some xs) = (length xs > 0)"

definition arrOf :: "'a list option \<Rightarrow> 'a list" where
  "arrOf v = (case v of None \<Rightarrow> [] | Some xs \<Rightarrow> xs)"

definition strOf :: "string option \<Rightarrow> string" where
  "strOf v = (case v of None \<Rightarrow> [] | Some s \<Rightarrow> s)"

definition linkOf :: "Links option \<Rightarrow> string option" where
  "linkOf l = (case l of None \<Rightarrow> None | Some x \<Rightarrow> liveDemo x)"

definition videoOf :: "Media option \<Rightarrow> string option" where
  "videoOf m = (case m of None \<Rightarrow> None | Some x \<Rightarrow> video x)"

text \<open>The lines \<open>toYaml\<close> pushes for one entry.\<close>

definition yamlEntry :: "PortfolioEntry \<Rightarrow> string list" where
  "yamlEntry entry =
     [''  - name: \"'' @ name entry @ ''\"'']
     @ (if truthyStr (shortDescription entry)
        then [''    shortDescription: \"'' @ strOf (shortDescription entry) @ ''\"''] else [])
     @ (if truthyStr (description entry)
        then [''    description: \"'' @ strOf (description entry) @ ''\"''] else [])
     @ (if truthyStr (category entry) then [''    category: '' @ strOf (category entry)] else [])
     @ (if hasLength (technologies entry)
        then [''    technologies: ['' @ join '', '' (arrOf (technologies entry)) @ '']''] else [])
     @ (case status entry of None \<Rightarrow> [] | Some s \<Rightarrow> [''    status: '' @ statusName s])
     @ (if truthyStr (dateCompleted entry)
        then [''    dateCompleted: '' @ strOf (dateCompleted entry)] else [])
     @ [''    github: '' @ github entry]
     @ (if truthyBool (featured entry) then [''    featured: true''] else [])
     @ (if hasLength (models entry)
        then ''    models:'' # map (\<lambda>m. ''      - '' @ m) (arrOf (models entry)) else [])
     @ (if hasLength (images entry)
        then ''    images:'' # map (\<lambda>i. ''      - '' @ i) (arrOf (images entry)) else [])
     @ (if truthyStr (linkOf (links entry))
        then [''    liveDemo: '' @ strOf (linkOf (links entry))] else [])
     @ (if truthyStr (videoOf (media entry))
        then [''    video: '' @ strOf (videoOf (media entry))] else [])
     @ ['''']"

definition toYamlLines :: "PortfolioEntry list \<Rightarrow> string list" where
  "toYamlLines entries = ''projects:'' # concat (map yamlEntry entries)"

definition toYaml :: "PortfolioEntry list \<Rightarrow> string" where
  "toYaml entries = join [CHR 0x0A] (toYamlLines entries)"

text \<open>The \<open>categories\<close> map of \<open>toMarkdown\<close>: a Map keeps its keys in insertion order.\<close>

fun groupAdd :: "(string \<times> 'e list) list \<Rightarrow> string \<Rightarrow> 'e \<Rightarrow> (string \<times> 'e list) list" where
  "groupAdd [] cat e = [(cat, [e])]"
| "groupAdd ((c, es) # rest) cat e =
     (if c = cat then (c, es @ [e]) # rest else (c, es) # groupAdd rest cat e)"

definition categoryOf :: "PortfolioEntry \<Rightarrow> string" where
  "categoryOf e = (if truthyStr (category e) then strOf (category e) else ''Other'')"

definition groupByCategory :: "PortfolioEntry list \<Rightarrow> (string \<times> PortfolioEntry list) list" where
  "groupByCategory entries = foldl (\<lambda>m e. groupAdd m (categoryOf e) e) [] entries"

text \<open>The two characters of the source text outside ASCII, in UTF-8: the dash of the
  title line and the star that marks a featured project.\<close>

definition emDash :: string where
  "emDash = [CHR 0xE2, CHR 0x80, CHR 0x94]"

definition star :: string where
  "star = [CHR 0xE2, CHR 0xAD, CHR 0x90]"

definition markdownProject :: "PortfolioEntry \<Rightarrow> string list" where
  "markdownProject p =
     [''### '' @ name p @ (if truthyBool (featured p) then '' '' @ star else []) @ [CHR 0x0A]]
     @ (if truthyStr (shortDescription p) then [strOf (shortDescription p) @ [CHR 0x0A]] else [])
     @ (if hasLength (technologies p)
        then [''- **Tech:** '' @ join '', '' (arrOf (technologies p))] else [])
     @ (case status p of None \<Rightarrow> [] | Some s \<Rightarrow> [''- **Status:** '' @ statusName s])
     @ (if truthyStr (dateCompleted p) then [''- **Date:** '' @ strOf (dateCompleted p)] else [])
     @ [''- **GitHub:** '' @ github p]
     @ (if truthyStr (linkOf (links p)) then [''- **Live:** '' @ strOf (linkOf (links p))] else [])
     @ (if truthyStr (videoOf (media p)) then [''- **Video:** '' @ strOf (videoOf (media p))] else [])
     @ (if hasLength (models p)
        then [''- **3D Models:** '' @ showNat (length (arrOf (models p))) @ '' file(s)''] else [])
     @ (if hasLength (images p)
        then [''- **Images:** '' @ showNat (length (arrOf (images p))) @ '' file(s)''] else [])
     @ (if truthyStr (description p) \<and> description p \<noteq> shortDescription p
        then [CHR 0x0A # strOf (description p)] else [])
     @ ['''']"

definition toMarkdownLines :: "PortfolioEntry list \<Rightarrow> string list" where
  "toMarkdownLines entries =
     (''# Portfolio '' @ emDash @ '' '' @ showNat (length entries) @ '' projects'' @ [CHR 0x0A])
     # concat (map (\<lambda>(cat, projects).
                     (''## '' @ cat @ [CHR 0x0A]) # concat (map markdownProject projects))
                (groupByCategory entries))"

definition toMarkdown :: "PortfolioEntry list \<Rightarrow> string" where
  "toMarkdown entries = join [CHR 0x0A] (toMarkdownLines entries)"

datatype OutputFormat = Json | Yaml | Markdown

datatype rendered = JsonDoc json | TextDoc string

definition formatOutput :: "PortfolioEntry list \<Rightarrow> OutputFormat \<Rightarrow> rendered" where
  "formatOutput entries format =
     (case format of
        Yaml \<Rightarrow> TextDoc (toYaml entries)
      | Markdown \<Rightarrow> TextDoc (toMarkdown entries)
      | Json \<Rightarrow> JsonDoc (toJson entries))"

text \<open>What \<open>generate\<close> writes (or prints in a dry run).\<close>

definition generate ::
  "clock \<Rightarrow> zod \<Rightarrow> client \<Rightarrow> string list \<Rightarrow> OutputFormat \<Rightarrow> RepoInfo list \<Rightarrow> rendered" where
  "generate ck z cl excl format repos = formatOutput (generateEntries ck z cl excl repos) format"

section \<open>The local detectors\<close>

subsection \<open>README parser (detectors/readme-parser.ts)\<close>

definition isBadge :: "string \<Rightarrow> bool" where
  "isBadge line =
     (startsWith line ''[!['' \<or> (startsWith line ''!['' \<and> includesStr line ''badge''))"

definition isHeading :: "string \<Rightarrow> bool" where
  "isHeading line = startsWith line ''#''"

definition isHtml :: "string \<Rightarrow> bool" where
  "isHtml line = (startsWith line ''<'' \<and> \<not> startsWith line ''<a'')"

definition isSkippable :: "string \<Rightarrow> bool" where
  "isSkippable line =
     (let trimmed = trim line in
      trimmed = [] \<or> isBadge trimmed \<or> isHeading trimmed \<or> isHtml trimmed)"

text \<open>\<open>line.replace(/^#+\s*/, "").trim().toLowerCase()\<close>.\<close>

definition headingText :: "string \<Rightarrow> string" where
  "headingText line =
     toLowerCase (trim (dropWhile isSpaceChar (dropWhile (\<lambda>c. c = CHR ''#'') line)))"

fun sectionLoop :: "string list \<Rightarrow> bool \<Rightarrow> string list \<Rightarrow> string list \<Rightarrow> string list" where
  "sectionLoop headings capturing captured [] = captured"
| "sectionLoop headings capturing captured (line # rest) =
     (if isHeading line \<and> headingText line \<in> set headings
        then sectionLoop headings True captured rest
      else if isHeading line \<and> capturing then captured
      else sectionLoop headings capturing
             (if capturing \<and> trim line \<noteq> [] then captured @ [trim line] else captured) rest)"

definition extractSection :: "string \<Rightarrow> string list \<Rightarrow> string option" where
  "extractSection content headings =
     (let captured = sectionLoop headings False [] (split (CHR 0x0A) content) in
      if length captured > 0 then Some (join '' '' captured) else None)"

fun paragraphLoop :: "bool \<Rightarrow> string list \<Rightarrow> string list \<Rightarrow> string list" where
  "paragraphLoop pastTitle paragraph [] = paragraph"
| "paragraphLoop pastTitle paragraph (line # rest) =
     (if \<not> pastTitle \<and> isHeading line then paragraphLoop True paragraph rest
      else if \<not> pastTitle \<and> isSkippable line then paragraphLoop pastTitle paragraph rest
      else if isSkippable line then
        (if length paragraph > 0 then paragraph else paragraphLoop True paragraph rest)
      else paragraphLoop True (paragraph @ [trim line]) rest)"

definition extractFirstParagraph :: "string \<Rightarrow> string option" where
  "extractFirstParagraph content =
     (let paragraph = paragraphLoop False [] (split (CHR 0x0A) content) in
      if length paragraph > 0 then Some (join '' '' paragraph) else None)"

text \<open>\<open>firstSentence(text)\<close> with the default \<open>maxLen = 120\<close>.\<close>

definition firstSentence :: "string \<Rightarrow> string" where
  "firstSentence txt =
     (let sentence = (case matchFirstSentence txt of Some m \<Rightarrow> trim m | None \<Rightarrow> txt) in
      if length sentence > 120 then take (120 - 3) sentence @ ''...'' else sentence)"

record ReadmeResult =
  r_description :: "string option"
  r_shortDescription :: "string option"

text \<open>\<open>parseReadme\<close>: the argument is the content of the README file that was found
  (\<open>None\<close> when there is none or it cannot be read).\<close>

definition parseReadme :: "string option \<Rightarrow> ReadmeResult" where
  "parseReadme file =
     (case file of
        None \<Rightarrow> \<lparr> r_description = None, r_shortDescription = None \<rparr>
      | Some content \<Rightarrow>
          (let description =
                 orStr (extractSection content [''description'', ''about'', ''overview''])
                       (extractFirstParagraph content)
           in if \<not> truthyStr description
              then \<lparr> r_description = None, r_shortDescription = None \<rparr>
              else \<lparr> r_description = description,
                     r_shortDescription = Some (firstSentence (strOf description)) \<rparr>))"

subsection \<open>Asset detector (detectors/asset-detector.ts)\<close>

definition MODEL_EXTENSIONS :: "string list" where
  "MODEL_EXTENSIONS = [''.stl'', ''.gltf'', ''.glb'', ''.obj'', ''.fbx'', ''.3mf'']"

definition IMAGE_EXTENSIONS :: "string list" where
  "IMAGE_EXTENSIONS = [''.png'', ''.jpg'', ''.jpeg'', ''.gif'', ''.webp'', ''.svg'']"

text \<open>\<open>IMAGE_DIRS\<close> of the asset detector (directory names, not prefixes).\<close>

definition IMAGE_DIRS_local :: "string list" where
  "IMAGE_DIRS_local = [''docs'', ''assets'', ''images'', ''screenshots'', ''public'', ''media'']"

definition SKIP_DIRS :: "string list" where
  "SKIP_DIRS = [''node_modules'', ''.git'', ''dist'', ''build'', ''__pycache__'',
                ''.next'', ''.cache'', ''vendor'', ''.venv'', ''venv'']"

text \<open>A directory as \<open>readdir\<close> with \<open>withFileTypes\<close> shows it: files and directories by name.
  A directory that cannot be read is one with no entries.\<close>

datatype dirent = File string | Dir string "dirent list"

text \<open>\<open>path.extname\<close> on a file name: from the last dot on, and empty when there is no dot
  or the only dot starts the name.\<close>

definition extname :: "string \<Rightarrow> string" where
  "extname n =
     (let parts = split (CHR ''.'') n in
      if length parts < 2 \<or> join ''.'' (butlast parts) = [] \<or> n = ''..'' then []
      else ''.'' @ last parts)"

text \<open>\<open>walkDir\<close>. \<open>pre\<close> is the path of the directory relative to the root, with a
  trailing slash; the last step replaces backslashes by slashes.\<close>

fun walkDir :: "(string \<Rightarrow> bool) \<Rightarrow> string list option \<Rightarrow> nat \<Rightarrow> string \<Rightarrow> dirent list \<Rightarrow> string list" where
  "walkDir flt restrictToDirs depth pre [] = []"
| "walkDir flt restrictToDirs depth pre (File n # rest) =
     (if n \<in> set SKIP_DIRS then []
      else if flt (toLowerCase (extname n))
        then [map (\<lambda>c. if c = CHR 0x5C then CHR ''/'' else c) (pre @ n)]
      else [])
     @ walkDir flt restrictToDirs depth pre rest"
| "walkDir flt restrictToDirs depth pre (Dir n sub # rest) =
     (if n \<in> set SKIP_DIRS then []
      else if (case restrictToDirs of
                 None \<Rightarrow> False
               | Some dirs \<Rightarrow> depth = 0 \<and> toLowerCase n \<notin> set dirs) then []
      else walkDir flt None (depth + 1) (pre @ n @ ''/'') sub)
     @ walkDir flt restrictToDirs depth pre rest"

definition THUMBNAIL_PATTERNS :: "string list" where
  "THUMBNAIL_PATTERNS = [''thumb'', ''cover'', ''hero'', ''banner'', ''preview'']"

text \<open>\<open>pattern.test(filename)\<close> for \<open>/^thumb/i\<close> and the like.\<close>

definition testPattern :: "string \<Rightarrow> string \<Rightarrow> bool" where
  "testPattern pat img = startsWith (toLowerCase (last (split (CHR ''/'') img))) pat"

fun pickLoop :: "string list \<Rightarrow> string list \<Rightarrow> string option" where
  "pickLoop imgs [] = (case imgs of [] \<Rightarrow> None | i # _ \<Rightarrow> Some i)"
| "pickLoop imgs (pat # pats) =
     (case find (testPattern pat) imgs of
        Some m \<Rightarrow> Some m
      | None \<Rightarrow> pickLoop imgs pats)"

definition pickThumbnail :: "string list \<Rightarrow> string option" where
  "pickThumbnail imgs = (if length imgs = 0 then None else pickLoop imgs THUMBNAIL_PATTERNS)"

record AssetResult =
  a_models :: "string list"
  a_images :: "string list"
  a_thumbnail :: "string option"

definition detectAssets :: "dirent list \<Rightarrow> AssetResult" where
  "detectAssets dir =
     (let ms = walkDir (\<lambda>ext. ext \<in> set MODEL_EXTENSIONS) None 0 [] dir;
          imgs = walkDir (\<lambda>ext. ext \<in> set IMAGE_EXTENSIONS) (Some IMAGE_DIRS_local) 0 [] dir
      in \<lparr> a_models = ms, a_images = imgs, a_thumbnail = pickThumbnail imgs \<rparr>)"

section \<open>The update command (cli.ts)\<close>





section \<open>The merge of the web variant (web/src/lib/portfolio.ts)\<close>

text \<open>\<open>inferTech\<close> and \<open>inferCategory\<close> of the web variant. \<open>inferStatus\<close> and \<open>toYearMonth\<close>
  have the bodies of the ones above.\<close>

definition inferTech :: "string option \<Rightarrow> string list \<Rightarrow> string list" where
  "inferTech lang tps =
     spreadSet (pushTopics (case lang of
                              None \<Rightarrow> []
                            | Some l \<Rightarrow> if l = [] then [] else [l]) tps)"

definition inferCategory :: "string list \<Rightarrow> string option \<Rightarrow> string" where
  "inferCategory tps lang =
     (let has = (\<lambda>x. x \<in> set tps) in
      if has ''game'' \<or> has ''gamedev'' \<or> has ''unity'' then ''Game Development''
      else if has ''machine-learning'' \<or> has ''deep-learning'' \<or> has ''ai''
        then ''Machine Learning''
      else if has ''robotics'' \<or> has ''arduino'' \<or> has ''embedded'' then ''Robotics''
      else if has ''three-js'' \<or> has ''threejs'' \<or> has ''webgl'' \<or> has ''3d''
        then ''Web 3D''
      else if has ''react'' \<or> has ''vue'' \<or> has ''angular'' \<or> has ''nextjs''
        then ''Web App''
      else if has ''api'' \<or> has ''backend'' \<or> has ''server'' then ''Backend/API''
      else if has ''mobile'' \<or> has ''react-native'' \<or> has ''flutter'' then ''Mobile App''
      else if has ''cli'' \<or> has ''tool'' then ''CLI Tool''
      else if lang = Some ''C#'' then ''Game Development''
      else if lang = Some ''Rust'' then ''Systems Programming''
      else if lang = Some ''Go'' then ''Backend/API''
      else if lang = Some ''Python'' then ''Python''
      else ''Software'')"

text \<open>The entry of the web variant adds the \<open>enabled\<close> flag of the page. Its type has no
  \<open>thumbnail\<close> and no \<open>exclude\<close>: these two fields are always \<open>None\<close> here.\<close>

record WebEntry = PortfolioEntry +
  enabled :: bool

text \<open>The object the web \<open>processRepo\<close> returns when \<open>.portfolio.json\<close> parses (lines
  153-168). The web variant does not validate the document; the model gives the object
  for a document whose members have the types of the schema.\<close>

definition webOverrideEntry :: "clock \<Rightarrow> RepoInfo \<Rightarrow> PortfolioConfig \<Rightarrow> WebEntry" where
  "webOverrideEntry ck repo config =
     \<lparr> name = (if name config \<noteq> [] then name config else cleanRepoName (repo_name repo)),
       shortDescription = shortDescription config,
       description = orStr (description config) (orStr (repo_description repo) None),
       category = orStr (category config) (Some (inferCategory (topics repo) (language repo))),
       technologies =
         (case technologies config of
            Some t \<Rightarrow> Some t
          | None \<Rightarrow> Some (inferTech (language repo) (topics repo))),
       status = (case status config of Some s \<Rightarrow> Some s | None \<Rightarrow> Some (inferStatus ck repo)),
       dateCompleted = orStr (dateCompleted config) (Some (toYearMonth ck (pushedAt repo))),
       models = models config,
       images = images config,
       thumbnail = None,
       media = media config,
       links =
         (case links config of
            Some l \<Rightarrow> Some l
          | None \<Rightarrow> if truthyStr (homepage repo)
                    then Some \<lparr> liveDemo = homepage repo, docs = None \<rparr> else None),
       featured = featured config,
       exclude = None,
       github = url repo,
       enabled = (exclude config \<noteq> Some True) \<rparr>"

text \<open>\<open>formatEntries\<close> gives each of the three formatters
  \<open>entries.filter((e) => e.enabled)\<close>.\<close>

definition enabledEntries :: "WebEntry list \<Rightarrow> WebEntry list" where
  "enabledEntries entries = filter enabled entries"

section \<open>Example inputs\<close>

text \<open>A collation for the examples: letters are compared without their case first
  (so that \<open>a\<close> comes before \<open>B\<close>, as in the usual collations), and two strings that
  differ in case only are ordered with the lower case first.\<close>

definition exampleCollation :: "string \<Rightarrow> string \<Rightarrow> int" where
  "exampleCollation a b =
     (if toLowerCase a < toLowerCase b then - 1
      else if toLowerCase b < toLowerCase a then 1
      else if a = b then 0
      else if b < a then - 1 else 1)"

text \<open>A clock for the examples: it parses the two time stamps the examples use
  (milliseconds since the epoch) and reads them in UTC.\<close>

definition exampleClock :: clock where
  "exampleClock =
     \<lparr> parseDate = (\<lambda>s. if s = ''2024-03-15T10:00:00Z'' then Some 1710496800000
                         else if s = ''2019-06-01T00:00:00Z'' then Some 1559347200000
                         else None),
       oneYearAgo = 1700000000000,
       getFullYear = (\<lambda>t. if t = 1710496800000 then 2024 else 2019),
       getMonth = (\<lambda>t. if t = 1710496800000 then 2 else 5),
       localeCompare = exampleCollation \<rparr>"

definition archivedUndatedRepo :: RepoInfo where
  "archivedUndatedRepo =
     \<lparr> repo_name = ''old-tool'', fullName = ''alice/old-tool'', repo_description = None,
       url = ''https://github.com/alice/old-tool'', homepage = None, topics = [],
       language = None, archived = True, pushedAt = [], defaultBranch = ''main'' \<rparr>"

text \<open>The zod of the examples, with the messages of zod 3 in short form.\<close>

definition exampleZod :: zod where
  "exampleZod =
     \<lparr> message = (\<lambda>c. case c of
                        Required \<Rightarrow> ''Required''
                      | InvalidType \<Rightarrow> ''Invalid type''
                      | TooSmall \<Rightarrow> ''Too small''
                      | InvalidEnumValue \<Rightarrow> ''Invalid enum value''
                      | InvalidUrl \<Rightarrow> ''Invalid url''),
       isUrl = (\<lambda>s. prefix ''https://'' s \<or> prefix ''http://'' s) \<rparr>"

text \<open>A repository pushed in March 2024, language Python, topic \<open>robotics\<close>.\<close>

definition robotRepo :: RepoInfo where
  "robotRepo =
     \<lparr> repo_name = ''robot-arm'', fullName = ''alice/robot-arm'', repo_description = None,
       url = ''https://github.com/alice/robot-arm'', homepage = None,
       topics = [''robotics''], language = Some ''Python'', archived = False,
       pushedAt = ''2024-03-15T10:00:00Z'', defaultBranch = ''main'' \<rparr>"

text \<open>A repository whose topics map to labels, some of them twice, one of them the
  language.\<close>

definition busyRepo :: RepoInfo where
  "busyRepo =
     \<lparr> repo_name = ''robot-arm'', fullName = ''alice/robot-arm'', repo_description = None,
       url = ''https://github.com/alice/robot-arm'', homepage = None,
       topics = [''robotics'', ''python'', ''docker'', ''python'', ''threejs'', ''three-js''],
       language = Some ''Python'', archived = False,
       pushedAt = ''2024-03-15T10:00:00Z'', defaultBranch = ''main'' \<rparr>"

text \<open>A repository with no language and no topics.\<close>

definition plainRepo :: RepoInfo where
  "plainRepo =
     \<lparr> repo_name = ''notes'', fullName = ''alice/notes'', repo_description = None,
       url = ''https://github.com/alice/notes'', homepage = None,
       topics = [], language = None, archived = False,
       pushedAt = ''2024-03-15T10:00:00Z'', defaultBranch = ''main'' \<rparr>"

text \<open>Override documents of the examples.\<close>

definition robotArmDoc :: json where
  "robotArmDoc = JObj [(''name'', JStr ''Robot Arm''), (''featured'', JBool True),
                       (''models'', JArr [JStr ''cad/arm.stl''])]"

definition fullDoc :: json where
  "fullDoc = JObj [(''name'', JStr ''Robot Arm''), (''category'', JStr ''Hardware''),
                   (''technologies'', JArr [JStr ''ROS2''])]"

definition excludedDoc :: json where
  "excludedDoc = JObj [(''name'', JStr ''Robot Arm''), (''exclude'', JBool True)]"

definition nameOnlyDoc :: json where
  "nameOnlyDoc = JObj [(''name'', JStr ''Robot Arm'')]"

definition emptyCategoryDoc :: json where
  "emptyCategoryDoc = JObj [(''name'', JStr ''Robot Arm''), (''category'', JStr [])]"

definition emptyModelsDoc :: json where
  "emptyModelsDoc = JObj [(''name'', JStr ''Robot Arm''), (''models'', JArr [])]"



definition slashDateDoc :: json where
  "slashDateDoc = JObj [(''dateCompleted'', JStr ''2024/03'')]"

definition namedSlashDateDoc :: json where
  "namedSlashDateDoc = JObj [(''name'', JStr ''Robot Arm''), (''dateCompleted'', JStr ''2024/03'')]"

text \<open>A client that finds the given override document in every repository, no README and
  an empty tree.\<close>

definition clientWith :: "json \<Rightarrow> client" where
  "clientWith doc =
     \<lparr> getFileContent = (\<lambda>_. Doc doc), getReadme = (\<lambda>_. None), getRepoTree = (\<lambda>_ _. []) \<rparr>"

text \<open>The README of the scenario: title, badge, a paragraph of two sentences, more text,
  separated by blank lines.\<close>

definition scenarioReadme :: string where
  "scenarioReadme =
     ''# Title'' @ [CHR 0x0A, CHR 0x0A] @ ''![badge](url)'' @ [CHR 0x0A, CHR 0x0A]
     @ ''This project does X. It also does Y.'' @ [CHR 0x0A, CHR 0x0A] @ ''More text.''"

text \<open>The file listing of the scenario, flat and as a directory.\<close>

definition scenarioListing :: "string list" where
  "scenarioListing = [''docs/photo.png'', ''src/icon.png'', ''cad/arm.stl'']"

definition scenarioDir :: "dirent list" where
  "scenarioDir =
     [Dir ''docs'' [File ''photo.png''], Dir ''src'' [File ''icon.png''],
      Dir ''cad'' [File ''arm.stl'']]"

text \<open>Detector results and an existing document for the update command.\<close>

definition bareConfig :: PortfolioConfig where
  "bareConfig =
     \<lparr> name = ''Robot Arm'', shortDescription = None, description = None, category = None,
       technologies = None, status = None, dateCompleted = None, models = None,
       images = None, thumbnail = None, media = None, links = None, featured = None,
       exclude = None \<rparr>"






text \<open>Entries for the sort: an entry with a name, the \<open>featured\<close> member and the date.\<close>

definition datedEntry :: "string \<Rightarrow> bool option \<Rightarrow> string option \<Rightarrow> PortfolioEntry" where
  "datedEntry n f d =
     PortfolioConfig.extend (bareConfig \<lparr> name := n, featured := f, dateCompleted := d \<rparr>)
       (PortfolioEntry.fields (''https://github.com/alice/'' @ n))"

text \<open>Seven entries in the order of their names: two of March 2024 and two of January
  2023 among them, one of them featured, one without a date and one with an empty
  date.\<close>

definition sortInput :: "PortfolioEntry list" where
  "sortInput =
     [datedEntry ''a'' None (Some ''2023-01''),
      datedEntry ''b'' None None,
      datedEntry ''c'' None (Some ''2024-03''),
      datedEntry ''d'' (Some True) (Some ''2023-01''),
      datedEntry ''e'' (Some False) (Some ''2024-03''),
      datedEntry ''f'' None (Some []),
      datedEntry ''g'' (Some False) (Some ''2023-01'')]"

text \<open>Two entries of the scan of the web page, whose override is not validated: the
  dates are the strings \<open>a\<close> and \<open>B\<close>.\<close>

definition letterEntries :: "WebEntry list" where
  "letterEntries =
     [webOverrideEntry exampleClock robotRepo (bareConfig \<lparr> name := ''first'', dateCompleted := Some ''B'' \<rparr>),
      webOverrideEntry exampleClock robotRepo (bareConfig \<lparr> name := ''second'', dateCompleted := Some ''a'' \<rparr>)]"

section \<open>Status inference: what it can return\<close>

lemma inferStatus_cases: "inferStatus ck repo = Archived \<or> inferStatus ck repo = Completed"
  by (simp add: inferStatus_def)

lemma inferStatusLocal_cases:
  "inferStatusLocal ck d = Archived \<or> inferStatusLocal ck d = Completed"
  by (simp add: inferStatusLocal_def split: option.split)

lemma overrideEntry_status:
  "status (overrideEntry ck repo data)
     = Some (case status data of Some s \<Rightarrow> s | None \<Rightarrow> inferStatus ck repo)"
  by (simp add: overrideEntry_def PortfolioConfig.extend_def PortfolioEntry.fields_def
        split: option.split)

text \<open>
  Claim C10. None of the status inference functions (the one of generate.ts and
  web/src/lib/portfolio.ts on a RepoInfo, the one of the metadata detector on a local
  repository) returns "In Progress": each returns Archived or Completed. An entry has
  the status "In Progress" only when a manual override says so: the auto-detected entry
  never has it, the entry made from an override has it only if the override document
  has it (in generate.ts and in the web variant), and \<open>processRepo\<close> returns it only for a
  valid override document with that status. A local repository with no discoverable
  commit date (git gives none, or one that does not parse) is reported Completed. For a
  RepoInfo whose push time stamp does not parse the remote inference gives Completed,
  unless the archived flag, which is tested first, gives Archived.
\<close>

theorem inferStatus_never_in_progress:
  "inferStatus ck repo \<noteq> InProgress
   \<and> inferStatusLocal ck d \<noteq> InProgress
   \<and> detectStatus ck s \<noteq> InProgress
   \<and> status (autoEntry ck repo readmeRaw tree) \<noteq> Some InProgress
   \<and> (status (overrideEntry ck repo data) = Some InProgress \<longrightarrow> status data = Some InProgress)
   \<and> (status (webOverrideEntry ck repo data) = Some InProgress
        \<longrightarrow> status data = Some InProgress)
   \<and> (\<forall>e. processRepo ck z repo config readmeRaw tree = Some e \<and> status e = Some InProgress
        \<longrightarrow> (\<exists>doc cfg. config = Doc doc \<and> validateConfig z doc = Inr cfg
                      \<and> status cfg = Some InProgress))
   \<and> inferStatusLocal ck None = Completed
   \<and> inferStatusLocal ck (Some None) = Completed
   \<and> detectStatus ck None = Completed
   \<and> (parseDate ck (pushedAt repo) = None \<longrightarrow>
        inferStatus ck repo = (if archived repo then Archived else Completed))"
proof -
  have a: "inferStatus ck repo \<noteq> InProgress"
    using inferStatus_cases [of ck repo] by auto
  have b: "inferStatusLocal ck d' \<noteq> InProgress" for d'
    using inferStatusLocal_cases [of ck d'] by auto
  have c: "detectStatus ck s \<noteq> InProgress"
    unfolding detectStatus_def by (rule b)
  have g: "status (autoEntry ck repo readmeRaw tree) \<noteq> Some InProgress"
    using a by (simp add: autoEntry_def Let_def)
  have h: "status (overrideEntry ck repo cfg) = Some InProgress \<longrightarrow> status cfg = Some InProgress"
    for cfg
    using a by (cases "status cfg") (simp_all add: overrideEntry_status)
  have w: "status (webOverrideEntry ck repo data) = Some InProgress
        \<longrightarrow> status data = Some InProgress"
    using a by (cases "status data") (simp_all add: webOverrideEntry_def)
  have p: "\<forall>e. processRepo ck z repo config readmeRaw tree = Some e \<and> status e = Some InProgress
        \<longrightarrow> (\<exists>doc cfg. config = Doc doc \<and> validateConfig z doc = Inr cfg
                      \<and> status cfg = Some InProgress)"
    using g h by (auto simp: processRepo_def split: fetched.splits sum.splits)
  have d: "inferStatusLocal ck None = Completed" "inferStatusLocal ck (Some None) = Completed"
    by (simp_all add: inferStatusLocal_def dateBefore_def)
  have e: "detectStatus ck None = Completed"
    by (simp add: detectStatus_def inferStatusLocal_def)
  have f: "parseDate ck (pushedAt repo) = None \<longrightarrow>
        inferStatus ck repo = (if archived repo then Archived else Completed)"
    by (simp add: inferStatus_def dateBefore_def)
  from a b [of d] c g h [of data] w p d e f show ?thesis by blast
qed

text \<open>A manual override with the status "In Progress" gives an entry with that status;
  an archived repository without a push time stamp is Archived.\<close>

theorem inferStatus_never_in_progress_witness:
  "status (bareConfig \<lparr> status := Some InProgress \<rparr>) = Some InProgress
   \<and> status (overrideEntry exampleClock robotRepo (bareConfig \<lparr> status := Some InProgress \<rparr>))
       = Some InProgress
   \<and> status (overrideEntry exampleClock robotRepo bareConfig) = Some Completed
   \<and> parseDate exampleClock (pushedAt archivedUndatedRepo) = None
   \<and> inferStatus exampleClock archivedUndatedRepo = Archived"
proof -
  note t = inferStatus_never_in_progress
             [of exampleClock archivedUndatedRepo None None None "[]"
                 "bareConfig \<lparr> status := Some InProgress \<rparr>" exampleZod Absent]
  have p: "parseDate exampleClock (pushedAt archivedUndatedRepo) = None"
    by (simp add: exampleClock_def archivedUndatedRepo_def)
  have i: "inferStatus exampleClock archivedUndatedRepo = Archived"
    using t p by (simp add: archivedUndatedRepo_def)
  have s: "status (overrideEntry exampleClock robotRepo (bareConfig \<lparr> status := Some InProgress \<rparr>))
       = Some InProgress"
    by (simp add: overrideEntry_status)
  have c: "status (overrideEntry exampleClock robotRepo bareConfig) = Some Completed"
    by (simp add: overrideEntry_status bareConfig_def inferStatus_def robotRepo_def
          exampleClock_def dateBefore_def)
  from p i s c show ?thesis by simp
qed

section \<open>The sort of the entries is stable and two-level\<close>

lemma compareEntries_le:
  "compareEntries ck a b \<le> 0 \<longleftrightarrow>
     (truthyBool (featured a) \<and> \<not> truthyBool (featured b))
     \<or> (truthyBool (featured a) = truthyBool (featured b)
         \<and> localeCompare ck (dateKey b) (dateKey a) \<le> 0)"
  by (auto simp: compareEntries_def)

lemma collation_refl: "consistentCollation ck \<Longrightarrow> localeCompare ck a a = 0"
  unfolding consistentCollation_def by blast

lemma collation_antisym:
  "consistentCollation ck \<Longrightarrow> sgn (localeCompare ck a b) = - sgn (localeCompare ck b a)"
  unfolding consistentCollation_def by blast

lemma collation_trans:
  assumes "consistentCollation ck" "localeCompare ck a b \<le> 0" "localeCompare ck b c \<le> 0"
  shows "localeCompare ck a c \<le> 0"
proof -
  from assms(1) have "\<forall>a b c. localeCompare ck a b \<le> 0 \<longrightarrow> localeCompare ck b c \<le> 0
                        \<longrightarrow> localeCompare ck a c \<le> 0"
    unfolding consistentCollation_def by blast
  with assms(2,3) show ?thesis by blast
qed

lemma collation_empty_first: "consistentCollation ck \<Longrightarrow> localeCompare ck [] s \<le> 0"
  unfolding consistentCollation_def by blast

lemma collation_total:
  assumes "consistentCollation ck"
  shows "localeCompare ck a b \<le> 0 \<or> localeCompare ck b a \<le> 0"
proof (cases "localeCompare ck a b \<le> 0")
  case True
  then show ?thesis by simp
next
  case False
  then have "sgn (localeCompare ck a b) = 1" by simp
  with collation_antisym [OF assms, of a b] have "sgn (localeCompare ck b a) = - 1" by simp
  then have "localeCompare ck b a < 0" by (simp add: sgn_if split: if_splits)
  then show ?thesis by simp
qed

lemma compareEntries_refl: "consistentCollation ck \<Longrightarrow> compareEntries ck a a = 0"
  by (simp add: compareEntries_def collation_refl)

lemma compareEntries_antisym:
  assumes "consistentCollation ck"
  shows "sgn (compareEntries ck a b) = - sgn (compareEntries ck b a)"
  using collation_antisym [OF assms, of "dateKey b" "dateKey a"]
  by (simp add: compareEntries_def)

lemma compareEntries_total:
  assumes "consistentCollation ck"
  shows "compareEntries ck a b \<le> 0 \<or> compareEntries ck b a \<le> 0"
  using collation_total [OF assms, of "dateKey b" "dateKey a"]
  unfolding compareEntries_le by blast

lemma compareEntries_trans:
  assumes "consistentCollation ck" "compareEntries ck a b \<le> 0" "compareEntries ck b c \<le> 0"
  shows "compareEntries ck a c \<le> 0"
proof -
  have t: "localeCompare ck (dateKey c) (dateKey b) \<le> 0
           \<Longrightarrow> localeCompare ck (dateKey b) (dateKey a) \<le> 0
           \<Longrightarrow> localeCompare ck (dateKey c) (dateKey a) \<le> 0"
    by (rule collation_trans [OF assms(1)])
  from assms(2,3) t show ?thesis unfolding compareEntries_le by blast
qed

lemma set_insertBy: "set (insertBy cmp x ys) = insert x (set ys)"
  by (induction ys) auto

lemma mset_insertBy: "mset (insertBy cmp x ys) = add_mset x (mset ys)"
  by (induction ys) auto

lemma arraySort_Nil: "arraySort cmp [] = []"
  by (simp add: arraySort_def)

lemma arraySort_Cons: "arraySort cmp (x # xs) = insertBy cmp x (arraySort cmp xs)"
  by (simp add: arraySort_def)

lemma mset_arraySort: "mset (arraySort cmp xs) = mset xs"
  by (induction xs) (simp_all add: arraySort_Nil arraySort_Cons mset_insertBy)

lemma set_arraySort: "set (arraySort cmp xs) = set xs"
  using mset_arraySort [of cmp xs] by (rule mset_eq_setD)

text \<open>The insertion keeps a list sorted when the comparator is total and transitive.\<close>

lemma sorted_insertBy:
  assumes total: "\<forall>x y. cmp x y \<le> 0 \<or> cmp y x \<le> 0"
    and trans: "\<forall>x y z. cmp x y \<le> 0 \<longrightarrow> cmp y z \<le> 0 \<longrightarrow> cmp x z \<le> 0"
  shows "sorted_wrt (\<lambda>a b. cmp a b \<le> 0) ys
         \<Longrightarrow> sorted_wrt (\<lambda>a b. cmp a b \<le> 0) (insertBy cmp x ys)"
proof (induction ys)
  case Nil
  then show ?case by simp
next
  case (Cons y ys)
  show ?case
  proof (cases "cmp x y \<le> 0")
    case True
    have "\<forall>w\<in>set ys. cmp x w \<le> 0"
    proof
      fix w
      assume "w \<in> set ys"
      with Cons.prems have "cmp y w \<le> 0" by simp
      with True trans show "cmp x w \<le> 0" by blast
    qed
    with True Cons.prems show ?thesis by simp
  next
    case False
    then have "cmp y x \<le> 0" using total by blast
    with False Cons show ?thesis by (auto simp: set_insertBy)
  qed
qed

lemma sorted_arraySort:
  assumes total: "\<forall>x y. cmp x y \<le> 0 \<or> cmp y x \<le> 0"
    and trans: "\<forall>x y z. cmp x y \<le> 0 \<longrightarrow> cmp y z \<le> 0 \<longrightarrow> cmp x z \<le> 0"
  shows "sorted_wrt (\<lambda>a b. cmp a b \<le> 0) (arraySort cmp xs)"
proof (induction xs)
  case Nil
  show ?case by (simp add: arraySort_Nil)
next
  case (Cons x xs)
  from sorted_insertBy [OF total trans Cons.IH]
  show ?case by (simp add: arraySort_Cons)
qed

lemma sorted_compareEntries:
  assumes "consistentCollation ck"
  shows "sorted_wrt (\<lambda>a b. compareEntries ck a b \<le> 0) (arraySort (compareEntries ck) xs)"
proof (rule sorted_arraySort)
  show "\<forall>x y. compareEntries ck x y \<le> 0 \<or> compareEntries ck y x \<le> 0"
    using compareEntries_total [OF assms] by blast
  show "\<forall>x y z. compareEntries ck x y \<le> 0 \<longrightarrow> compareEntries ck y z \<le> 0
                  \<longrightarrow> compareEntries ck x z \<le> 0"
    using compareEntries_trans [OF assms] by blast
qed

text \<open>An element is inserted before every element the comparator does not put before it,
  so the elements of one key keep their order.\<close>

lemma filter_insertBy:
  assumes "\<And>y. P x \<Longrightarrow> P y \<Longrightarrow> cmp x y \<le> 0"
  shows "filter P (insertBy cmp x ys) = (if P x then x # filter P ys else filter P ys)"
  using assms by (induction ys) auto

lemma filter_arraySort:
  assumes "\<And>x y. P x \<Longrightarrow> P y \<Longrightarrow> cmp x y \<le> 0"
  shows "filter P (arraySort cmp xs) = filter P xs"
proof (induction xs)
  case Nil
  show ?case by (simp add: arraySort_Nil)
next
  case (Cons x xs)
  have "filter P (insertBy cmp x (arraySort cmp xs))
        = (if P x then x # filter P (arraySort cmp xs) else filter P (arraySort cmp xs))"
    by (rule filter_insertBy) (rule assms)
  with Cons show ?case by (simp add: arraySort_Cons)
qed

text \<open>The key of the date: the field itself when it is there, the empty string otherwise.\<close>

lemma dateKey_Some: "dateCompleted e = Some d \<Longrightarrow> dateKey e = d"
  by (simp add: dateKey_def)

lemma dateKey_empty: "dateCompleted e = None \<or> dateCompleted e = Some [] \<Longrightarrow> dateKey e = []"
  by (auto simp: dateKey_def)

subsection \<open>The collation of the examples\<close>

lemma exampleCollation_le:
  "exampleCollation a b \<le> 0 \<longleftrightarrow>
     toLowerCase a < toLowerCase b \<or> (toLowerCase a = toLowerCase b \<and> b \<le> a)"
  by (auto simp: exampleCollation_def)

lemma digit_not_upper: "isDigitChar c \<Longrightarrow> \<not> isUpperChar c"
  by (auto simp: isDigitChar_def isUpperChar_def less_eq_char_def)

lemma dash_not_upper: "\<not> isUpperChar (CHR ''-'')"
  by (simp add: isUpperChar_def less_eq_char_def)

lemma toLowerCase_id: "\<forall>c\<in>set s. \<not> isUpperChar c \<Longrightarrow> toLowerCase s = s"
  by (induction s) (simp_all add: toLowerCase_def lowerChar_def)

lemma toLowerCase_dateLike:
  assumes "dateLike s"
  shows "toLowerCase s = s"
proof (cases "s = []")
  case True
  then show ?thesis by (simp add: toLowerCase_def)
next
  case False
  with assms have m: "matchesYearMonth s" by (simp add: dateLike_def)
  then have l: "4 < length s" by (simp add: matchesYearMonth_def)
  have s: "s = take 4 s @ s ! 4 # drop 5 s"
    using id_take_nth_drop [OF l] by simp
  have a: "\<not> isUpperChar c" if "c \<in> set (take 4 s)" for c
  proof -
    from m that have "isDigitChar c" by (simp add: matchesYearMonth_def list_all_iff)
    then show ?thesis by (rule digit_not_upper)
  qed
  have b: "\<not> isUpperChar c" if "c \<in> set (drop 5 s)" for c
  proof -
    from m that have "isDigitChar c" by (simp add: matchesYearMonth_def list_all_iff)
    then show ?thesis by (rule digit_not_upper)
  qed
  from m have d: "\<not> isUpperChar (s ! 4)" by (simp add: matchesYearMonth_def dash_not_upper)
  have "\<forall>c\<in>set (take 4 s @ s ! 4 # drop 5 s). \<not> isUpperChar c"
    using a b d by auto
  with s have "\<forall>c\<in>set s. \<not> isUpperChar c" by simp
  then show ?thesis by (rule toLowerCase_id)
qed

lemma exampleClock_consistent: "consistentCollation exampleClock"
proof -
  have r: "exampleCollation a a = 0" for a
    by (simp add: exampleCollation_def)
  have a: "sgn (exampleCollation a b) = - sgn (exampleCollation b a)" for a b
    by (auto simp: exampleCollation_def)
  have t: "exampleCollation a b \<le> 0 \<longrightarrow> exampleCollation b c \<le> 0 \<longrightarrow> exampleCollation a c \<le> 0"
    for a b c
    unfolding exampleCollation_le by (auto intro: less_trans le_less_trans order_trans)
  have e: "exampleCollation [] s \<le> 0" for s
    unfolding exampleCollation_le by (cases s) (simp_all add: toLowerCase_def)
  have l: "localeCompare exampleClock = exampleCollation"
    by (simp add: exampleClock_def)
  from r a t e show ?thesis
    unfolding consistentCollation_def l by blast
qed

lemma exampleClock_lexicographic: "lexicographicOnDates exampleClock"
proof -
  have "(exampleCollation a b \<le> 0) = (a \<le> b)" if "dateLike a" "dateLike b" for a b
    unfolding exampleCollation_le using that by (auto simp: toLowerCase_dateLike)
  then show ?thesis by (simp add: lexicographicOnDates_def exampleClock_def)
qed

lemma sortInput_dates:
  "list_all (\<lambda>e. case dateCompleted e of None \<Rightarrow> True | Some d \<Rightarrow> dateLike d) sortInput"
  by code_simp

lemma sortInput_sorted:
  "map name (arraySort (compareEntries exampleClock) sortInput)
     = [''d'', ''c'', ''e'', ''a'', ''g'', ''b'', ''f'']"
  by code_simp

text \<open>
  Claim C4, as the code has it. The comparator of the sort compares the dates with
  \<open>localeCompare\<close>, the collation of the runtime. For every collation (one that is
  reflexive, antisymmetric in sign and transitive, and that puts the empty string first)
  the comparator is consistent, so the stable sort of the language is determined by it,
  and for every input list of entries the sorted list is a rearrangement of the input in
  which: no entry that is not featured comes before a featured one; among entries alike
  in being featured, a later entry's \<open>dateCompleted\<close> never collates after an earlier
  entry's, and an entry whose \<open>dateCompleted\<close> is empty or absent is followed only by
  entries whose \<open>dateCompleted\<close> is absent or collates with the empty string; the entries
  alike in being featured and in \<open>dateCompleted\<close> appear in their input order, and so do
  the entries whose \<open>dateCompleted\<close> is empty or absent, and the entries the comparator
  calls equal to a given entry. When the collation orders the empty string and the
  strings of the form \<open>YYYY-MM\<close> lexicographically, and every \<open>dateCompleted\<close> of the
  input is such a string, then within each group the \<open>dateCompleted\<close> strings descend in
  the lexicographic order, and an entry whose \<open>dateCompleted\<close> is empty or absent is
  followed only by such entries.
\<close>

theorem sort_featured_then_collated_date_stable:
  fixes xs :: "'a PortfolioConfig_scheme list"
  assumes "consistentCollation ck"
  shows "compareEntries ck a a = 0
    \<and> sgn (compareEntries ck a b) = - sgn (compareEntries ck b a)
    \<and> (compareEntries ck a b \<le> 0 \<and> compareEntries ck b c \<le> 0 \<longrightarrow> compareEntries ck a c \<le> 0)
    \<and> mset (arraySort (compareEntries ck) xs) = mset xs
    \<and> sorted_wrt (\<lambda>a b. truthyBool (featured b) \<longrightarrow> truthyBool (featured a))
         (arraySort (compareEntries ck) xs)
    \<and> sorted_wrt (\<lambda>a b. truthyBool (featured a) = truthyBool (featured b)
                          \<longrightarrow> (\<forall>da db. dateCompleted a = Some da \<longrightarrow> dateCompleted b = Some db
                                       \<longrightarrow> localeCompare ck db da \<le> 0))
         (arraySort (compareEntries ck) xs)
    \<and> sorted_wrt (\<lambda>a b. truthyBool (featured a) = truthyBool (featured b)
                          \<longrightarrow> dateCompleted a = None \<or> dateCompleted a = Some []
                          \<longrightarrow> (\<forall>db. dateCompleted b = Some db \<longrightarrow> localeCompare ck db [] = 0))
         (arraySort (compareEntries ck) xs)
    \<and> (\<forall>f d. filter (\<lambda>e. truthyBool (featured e) = f \<and> dateCompleted e = d)
                  (arraySort (compareEntries ck) xs)
             = filter (\<lambda>e. truthyBool (featured e) = f \<and> dateCompleted e = d) xs)
    \<and> (\<forall>f. filter (\<lambda>e. truthyBool (featured e) = f
                          \<and> (dateCompleted e = None \<or> dateCompleted e = Some []))
                (arraySort (compareEntries ck) xs)
           = filter (\<lambda>e. truthyBool (featured e) = f
                          \<and> (dateCompleted e = None \<or> dateCompleted e = Some [])) xs)
    \<and> (\<forall>x. filter (\<lambda>e. compareEntries ck e x = 0) (arraySort (compareEntries ck) xs)
           = filter (\<lambda>e. compareEntries ck e x = 0) xs)
    \<and> (lexicographicOnDates ck
         \<and> (\<forall>e\<in>set xs. \<forall>d. dateCompleted e = Some d \<longrightarrow> dateLike d)
       \<longrightarrow> sorted_wrt (\<lambda>a b. truthyBool (featured a) = truthyBool (featured b)
                              \<longrightarrow> (\<forall>da db. dateCompleted a = Some da
                                           \<longrightarrow> dateCompleted b = Some db \<longrightarrow> db \<le> da))
             (arraySort (compareEntries ck) xs)
           \<and> sorted_wrt (\<lambda>a b. truthyBool (featured a) = truthyBool (featured b)
                              \<longrightarrow> dateCompleted a = None \<or> dateCompleted a = Some []
                              \<longrightarrow> dateCompleted b = None \<or> dateCompleted b = Some [])
             (arraySort (compareEntries ck) xs))"
proof -
  let ?ys = "arraySort (compareEntries ck) xs"
  note c = assms
  have s: "sorted_wrt (\<lambda>a b. compareEntries ck a b \<le> 0) ?ys"
    by (rule sorted_compareEntries [OF c])
  have r: "compareEntries ck a a = 0" by (rule compareEntries_refl [OF c])
  have n: "sgn (compareEntries ck a b) = - sgn (compareEntries ck b a)"
    by (rule compareEntries_antisym [OF c])
  have t: "compareEntries ck a b \<le> 0 \<and> compareEntries ck b c \<le> 0 \<longrightarrow> compareEntries ck a c \<le> 0"
    using compareEntries_trans [OF c, of a b c] by blast
  have m: "mset ?ys = mset xs" by (rule mset_arraySort)
  have f: "sorted_wrt (\<lambda>a b. truthyBool (featured b) \<longrightarrow> truthyBool (featured a)) ?ys"
    by (rule sorted_wrt_mono_rel [OF _ s]) (auto simp: compareEntries_le)
  have d: "sorted_wrt (\<lambda>a b. truthyBool (featured a) = truthyBool (featured b)
                          \<longrightarrow> (\<forall>da db. dateCompleted a = Some da \<longrightarrow> dateCompleted b = Some db
                                       \<longrightarrow> localeCompare ck db da \<le> 0)) ?ys"
    by (rule sorted_wrt_mono_rel [OF _ s]) (auto simp: compareEntries_le dateKey_def)
  have e: "sorted_wrt (\<lambda>a b. truthyBool (featured a) = truthyBool (featured b)
                          \<longrightarrow> dateCompleted a = None \<or> dateCompleted a = Some []
                          \<longrightarrow> (\<forall>db. dateCompleted b = Some db \<longrightarrow> localeCompare ck db [] = 0)) ?ys"
  proof (rule sorted_wrt_mono_rel [OF _ s], intro impI allI)
    fix x y db
    assume le: "compareEntries ck x y \<le> 0"
      and fe: "truthyBool (featured x) = truthyBool (featured y)"
      and em: "dateCompleted x = None \<or> dateCompleted x = Some []"
      and sb: "dateCompleted y = Some db"
    from le fe have "localeCompare ck (dateKey y) (dateKey x) \<le> 0"
      by (auto simp: compareEntries_le)
    with dateKey_empty [OF em] dateKey_Some [OF sb]
    have u: "localeCompare ck db [] \<le> 0" by simp
    have v: "localeCompare ck [] db \<le> 0" by (rule collation_empty_first [OF c])
    from collation_antisym [OF c, of db "[]"] u v
    show "localeCompare ck db [] = 0" by (simp add: sgn_if split: if_splits)
  qed
  have k: "\<forall>f d. filter (\<lambda>e. truthyBool (featured e) = f \<and> dateCompleted e = d) ?ys
             = filter (\<lambda>e. truthyBool (featured e) = f \<and> dateCompleted e = d) xs"
  proof (intro allI)
    fix f d
    show "filter (\<lambda>e. truthyBool (featured e) = f \<and> dateCompleted e = d) ?ys
             = filter (\<lambda>e. truthyBool (featured e) = f \<and> dateCompleted e = d) xs"
      by (rule filter_arraySort)
         (simp add: compareEntries_def dateKey_def collation_refl [OF c])
  qed
  have q: "\<forall>f. filter (\<lambda>e. truthyBool (featured e) = f
                          \<and> (dateCompleted e = None \<or> dateCompleted e = Some [])) ?ys
           = filter (\<lambda>e. truthyBool (featured e) = f
                          \<and> (dateCompleted e = None \<or> dateCompleted e = Some [])) xs"
  proof (intro allI)
    fix f
    show "filter (\<lambda>e. truthyBool (featured e) = f
                          \<and> (dateCompleted e = None \<or> dateCompleted e = Some [])) ?ys
           = filter (\<lambda>e. truthyBool (featured e) = f
                          \<and> (dateCompleted e = None \<or> dateCompleted e = Some [])) xs"
    proof (rule filter_arraySort)
      fix x y :: "'a PortfolioConfig_scheme"
      assume x: "truthyBool (featured x) = f
                 \<and> (dateCompleted x = None \<or> dateCompleted x = Some [])"
        and y: "truthyBool (featured y) = f
                 \<and> (dateCompleted y = None \<or> dateCompleted y = Some [])"
      from x have kx: "dateKey x = []" by (simp add: dateKey_empty)
      from y have ky: "dateKey y = []" by (simp add: dateKey_empty)
      from x y kx ky show "compareEntries ck x y \<le> 0"
        by (simp add: compareEntries_def collation_refl [OF c])
    qed
  qed
  have g: "\<forall>x. filter (\<lambda>e. compareEntries ck e x = 0) ?ys
           = filter (\<lambda>e. compareEntries ck e x = 0) xs"
  proof (intro allI)
    fix x
    show "filter (\<lambda>e. compareEntries ck e x = 0) ?ys = filter (\<lambda>e. compareEntries ck e x = 0) xs"
    proof (rule filter_arraySort)
      fix u v
      assume u: "compareEntries ck u x = 0" and v: "compareEntries ck v x = 0"
      from compareEntries_antisym [OF c, of x v] v have "compareEntries ck x v = 0"
        by (simp add: sgn_if split: if_splits)
      with u compareEntries_trans [OF c, of u x v] show "compareEntries ck u v \<le> 0" by simp
    qed
  qed
  have l: "lexicographicOnDates ck
         \<and> (\<forall>e\<in>set xs. \<forall>d. dateCompleted e = Some d \<longrightarrow> dateLike d)
       \<longrightarrow> sorted_wrt (\<lambda>a b. truthyBool (featured a) = truthyBool (featured b)
                              \<longrightarrow> (\<forall>da db. dateCompleted a = Some da
                                           \<longrightarrow> dateCompleted b = Some db \<longrightarrow> db \<le> da)) ?ys
           \<and> sorted_wrt (\<lambda>a b. truthyBool (featured a) = truthyBool (featured b)
                              \<longrightarrow> dateCompleted a = None \<or> dateCompleted a = Some []
                              \<longrightarrow> dateCompleted b = None \<or> dateCompleted b = Some []) ?ys"
  proof (intro impI, elim conjE)
    assume lex: "lexicographicOnDates ck"
      and dl: "\<forall>e\<in>set xs. \<forall>d. dateCompleted e = Some d \<longrightarrow> dateLike d"
    have lx: "(localeCompare ck u v \<le> 0) = (u \<le> v)" if "dateLike u" "dateLike v" for u v
      using lex that by (simp add: lexicographicOnDates_def)
    have en: "dateLike []" by (simp add: dateLike_def)
    have one: "sorted_wrt (\<lambda>a b. truthyBool (featured a) = truthyBool (featured b)
                              \<longrightarrow> (\<forall>da db. dateCompleted a = Some da
                                           \<longrightarrow> dateCompleted b = Some db \<longrightarrow> db \<le> da)) ?ys"
    proof (rule sorted_wrt_mono_rel [OF _ d], intro impI allI)
      fix x y da db
      assume mx: "x \<in> set ?ys" and my: "y \<in> set ?ys"
        and h: "truthyBool (featured x) = truthyBool (featured y)
                \<longrightarrow> (\<forall>da db. dateCompleted x = Some da \<longrightarrow> dateCompleted y = Some db
                             \<longrightarrow> localeCompare ck db da \<le> 0)"
        and fe: "truthyBool (featured x) = truthyBool (featured y)"
        and sa: "dateCompleted x = Some da" and sb: "dateCompleted y = Some db"
      from mx my dl sa sb have "dateLike da" "dateLike db"
        by (auto simp: set_arraySort)
      moreover from h fe sa sb have "localeCompare ck db da \<le> 0" by blast
      ultimately show "db \<le> da" by (simp add: lx)
    qed
    have two: "sorted_wrt (\<lambda>a b. truthyBool (featured a) = truthyBool (featured b)
                              \<longrightarrow> dateCompleted a = None \<or> dateCompleted a = Some []
                              \<longrightarrow> dateCompleted b = None \<or> dateCompleted b = Some []) ?ys"
    proof (rule sorted_wrt_mono_rel [OF _ e], intro impI)
      fix x y
      assume my: "y \<in> set ?ys"
        and h: "truthyBool (featured x) = truthyBool (featured y)
                \<longrightarrow> dateCompleted x = None \<or> dateCompleted x = Some []
                \<longrightarrow> (\<forall>db. dateCompleted y = Some db \<longrightarrow> localeCompare ck db [] = 0)"
        and fe: "truthyBool (featured x) = truthyBool (featured y)"
        and em: "dateCompleted x = None \<or> dateCompleted x = Some []"
      show "dateCompleted y = None \<or> dateCompleted y = Some []"
      proof (cases "dateCompleted y")
        case None
        then show ?thesis by simp
      next
        case (Some db)
        with h fe em have z: "localeCompare ck db [] = 0" by blast
        from my dl Some have "dateLike db" by (auto simp: set_arraySort)
        with z en lx [of db "[]"] have "db \<le> []" by simp
        then have "db = []" by simp
        with Some show ?thesis by simp
      qed
    qed
    from one two show "sorted_wrt (\<lambda>a b. truthyBool (featured a) = truthyBool (featured b)
                              \<longrightarrow> (\<forall>da db. dateCompleted a = Some da
                                           \<longrightarrow> dateCompleted b = Some db \<longrightarrow> db \<le> da)) ?ys
           \<and> sorted_wrt (\<lambda>a b. truthyBool (featured a) = truthyBool (featured b)
                              \<longrightarrow> dateCompleted a = None \<or> dateCompleted a = Some []
                              \<longrightarrow> dateCompleted b = None \<or> dateCompleted b = Some []) ?ys"
      by (rule conjI)
  qed
  show ?thesis
    by (intro conjI) (rule r n t m f d e k q g l)+
qed

text \<open>Seven entries under the collation of the examples: the featured entry of January
  2023 comes first, then the two entries of March 2024 and the two of January 2023 in
  their input order, then the entry without a date and the one with an empty date.\<close>

theorem sort_featured_then_collated_date_stable_witness:
  "consistentCollation exampleClock
   \<and> lexicographicOnDates exampleClock
   \<and> list_all (\<lambda>e. case dateCompleted e of None \<Rightarrow> True | Some d \<Rightarrow> dateLike d) sortInput
   \<and> map name sortInput = [''a'', ''b'', ''c'', ''d'', ''e'', ''f'', ''g'']
   \<and> map name (arraySort (compareEntries exampleClock) sortInput)
       = [''d'', ''c'', ''e'', ''a'', ''g'', ''b'', ''f'']
   \<and> map dateCompleted (arraySort (compareEntries exampleClock) sortInput)
       = [Some ''2023-01'', Some ''2024-03'', Some ''2024-03'', Some ''2023-01'',
          Some ''2023-01'', None, Some []]
   \<and> mset (arraySort (compareEntries exampleClock) sortInput) = mset sortInput
   \<and> sorted_wrt (\<lambda>a b. truthyBool (featured b) \<longrightarrow> truthyBool (featured a))
        (arraySort (compareEntries exampleClock) sortInput)
   \<and> sorted_wrt (\<lambda>a b. truthyBool (featured a) = truthyBool (featured b)
                        \<longrightarrow> (\<forall>da db. dateCompleted a = Some da
                                     \<longrightarrow> dateCompleted b = Some db \<longrightarrow> db \<le> da))
        (arraySort (compareEntries exampleClock) sortInput)
   \<and> sorted_wrt (\<lambda>a b. truthyBool (featured a) = truthyBool (featured b)
                        \<longrightarrow> dateCompleted a = None \<or> dateCompleted a = Some []
                        \<longrightarrow> dateCompleted b = None \<or> dateCompleted b = Some [])
        (arraySort (compareEntries exampleClock) sortInput)
   \<and> map name (filter (\<lambda>e. truthyBool (featured e) = False
                            \<and> dateCompleted e = Some ''2024-03'')
                  (arraySort (compareEntries exampleClock) sortInput)) = [''c'', ''e'']"
proof -
  note c = exampleClock_consistent
  note x = exampleClock_lexicographic
  have v: "\<forall>e\<in>set sortInput. \<forall>d. dateCompleted e = Some d \<longrightarrow> dateLike d"
    using sortInput_dates by (auto simp: list_all_iff split: option.splits)
  note t = sort_featured_then_collated_date_stable [OF c, of _ _ _ sortInput]
  have n: "map name sortInput = [''a'', ''b'', ''c'', ''d'', ''e'', ''f'', ''g'']"
    by code_simp
  have o: "map dateCompleted (arraySort (compareEntries exampleClock) sortInput)
       = [Some ''2023-01'', Some ''2024-03'', Some ''2024-03'', Some ''2023-01'',
          Some ''2023-01'', None, Some []]"
    by code_simp
  have m: "mset (arraySort (compareEntries exampleClock) sortInput) = mset sortInput"
    by (rule t [THEN conjunct2, THEN conjunct2, THEN conjunct2, THEN conjunct1])
  have f: "sorted_wrt (\<lambda>a b. truthyBool (featured b) \<longrightarrow> truthyBool (featured a))
        (arraySort (compareEntries exampleClock) sortInput)"
    by (rule t [THEN conjunct2, THEN conjunct2, THEN conjunct2, THEN conjunct2,
                THEN conjunct1])
  have k: "filter (\<lambda>e. truthyBool (featured e) = False \<and> dateCompleted e = Some ''2024-03'')
                  (arraySort (compareEntries exampleClock) sortInput)
           = filter (\<lambda>e. truthyBool (featured e) = False \<and> dateCompleted e = Some ''2024-03'')
                  sortInput"
    by (rule t [THEN conjunct2, THEN conjunct2, THEN conjunct2, THEN conjunct2,
                THEN conjunct2, THEN conjunct2, THEN conjunct2, THEN conjunct1,
                rule_format])
  have j: "map name (filter (\<lambda>e. truthyBool (featured e) = False
                                  \<and> dateCompleted e = Some ''2024-03'') sortInput)
           = [''c'', ''e'']"
    by code_simp
  note l = t [THEN conjunct2, THEN conjunct2, THEN conjunct2, THEN conjunct2,
              THEN conjunct2, THEN conjunct2, THEN conjunct2, THEN conjunct2,
              THEN conjunct2, THEN conjunct2, THEN mp, OF conjI, OF x v]
  note l1 = l [THEN conjunct1]
  note l2 = l [THEN conjunct2]
  have w: "map name (filter (\<lambda>e. truthyBool (featured e) = False
                                  \<and> dateCompleted e = Some ''2024-03'')
                  (arraySort (compareEntries exampleClock) sortInput)) = [''c'', ''e'']"
    by (simp only: k j)
  show ?thesis
    by (intro conjI) (rule c x sortInput_dates n sortInput_sorted o m f l1 l2 w)+
qed

text \<open>
  Claim C4 as the specification words it fails where the collation is not the
  lexicographic order. The scan of the web page sorts entries whose override is not
  validated; with dates \<open>B\<close> and \<open>a\<close>, and a collation that puts \<open>a\<close> before \<open>B\<close>, the
  entries keep the order \<open>B\<close>, \<open>a\<close>, although \<open>B\<close> is the smaller string in the
  lexicographic order, so that the dates ascend.
\<close>

theorem collated_dates_not_lexicographic:
  "consistentCollation exampleClock
   \<and> map dateCompleted letterEntries = [Some ''B'', Some ''a'']
   \<and> map (\<lambda>e. truthyBool (featured e)) letterEntries = [False, False]
   \<and> map dateCompleted (arraySort (compareEntries exampleClock) letterEntries)
       = [Some ''B'', Some ''a'']
   \<and> ''B'' < ''a''
   \<and> \<not> sorted_wrt (\<lambda>a b. truthyBool (featured a) = truthyBool (featured b)
                          \<longrightarrow> (\<forall>da db. dateCompleted a = Some da
                                       \<longrightarrow> dateCompleted b = Some db \<longrightarrow> db \<le> da))
          (arraySort (compareEntries exampleClock) letterEntries)"
proof -
  have d: "map dateCompleted letterEntries = [Some ''B'', Some ''a'']"
    by code_simp
  have f: "map (\<lambda>e. truthyBool (featured e)) letterEntries = [False, False]"
    by code_simp
  have s: "arraySort (compareEntries exampleClock) letterEntries = letterEntries"
    by code_simp
  have b: "''B'' < ''a''" by code_simp
  have e: "\<exists>x y. letterEntries = [x, y] \<and> dateCompleted x = Some ''B''
                 \<and> dateCompleted y = Some ''a''
                 \<and> truthyBool (featured x) = truthyBool (featured y)"
    using d f by (auto simp: letterEntries_def)
  have n: "\<not> sorted_wrt (\<lambda>a b. truthyBool (featured a) = truthyBool (featured b)
                          \<longrightarrow> (\<forall>da db. dateCompleted a = Some da
                                       \<longrightarrow> dateCompleted b = Some db \<longrightarrow> db \<le> da))
          (arraySort (compareEntries exampleClock) letterEntries)"
  proof -
    from e obtain x y where xy: "letterEntries = [x, y]" "dateCompleted x = Some ''B''"
      "dateCompleted y = Some ''a''" "truthyBool (featured x) = truthyBool (featured y)"
      by blast
    from b have no: "\<not> ''a'' \<le> ''B''" by simp
    from s xy(1) have so: "arraySort (compareEntries exampleClock) letterEntries = [x, y]"
      by simp
    from xy(2,3,4) no show ?thesis unfolding so by simp
  qed
  from exampleClock_consistent d f s b n show ?thesis by simp
qed

section \<open>Facts about the merge engine\<close>

lemma remdups_snoc: "remdups (xs @ [x]) = remdups (filter (\<lambda>y. y \<noteq> x) xs) @ [x]"
  by (induction xs) auto

lemma foldl_setAdd:
  "foldl setAdd acc xs = acc @ rev (remdups (rev (filter (\<lambda>x. x \<notin> set acc) xs)))"
proof (induction xs arbitrary: acc)
  case Nil
  show ?case by simp
next
  case (Cons x xs)
  show ?case
  proof (cases "x \<in> set acc")
    case True
    then show ?thesis using Cons [of acc] by (simp add: setAdd_def)
  next
    case False
    have "rev (remdups (rev (filter (\<lambda>y. y \<notin> set acc) xs) @ [x]))
          = x # rev (remdups (rev (filter (\<lambda>y. y \<notin> set (acc @ [x])) xs)))"
      by (simp add: remdups_snoc rev_filter [symmetric] conj_commute)
    with False show ?thesis using Cons [of "acc @ [x]"] by (simp add: setAdd_def)
  qed
qed

lemma spreadSet_first_occurrences: "spreadSet xs = rev (remdups (rev xs))"
  by (simp add: spreadSet_def foldl_setAdd)

lemma pushTopics_eq: "pushTopics techs tps = techs @ List.map_filter (map_of topicMap) tps"
  by (induction tps arbitrary: techs) (simp_all add: map_filter_simps split: option.split)

lemma inferTechFromLanguage_eq:
  "inferTechFromLanguage lang tps = rev (remdups (rev (detectedLabels lang tps)))"
  by (simp add: inferTechFromLanguage_def detectedLabels_def pushTopics_eq
        spreadSet_first_occurrences)

lemma inferTech_eq: "inferTech lang tps = inferTechFromLanguage lang tps"
  by (simp add: inferTech_def inferTechFromLanguage_def)

text \<open>On topics that name no inherited property the loop on the values pushes labels
  only, the ones of the loop on strings.\<close>

lemma topicValue_own:
  "topic \<notin> set objectPrototype \<Longrightarrow> topicValue topic = map_option Label (map_of topicMap topic)"
  by (simp add: topicValue_def split: option.split)

lemma pushTopicValues_labels:
  "set tps \<inter> set objectPrototype = {} \<Longrightarrow>
   pushTopicValues (map Label techs) tps = map Label (pushTopics techs tps)"
proof (induction tps arbitrary: techs)
  case Nil
  show ?case by simp
next
  case (Cons topic rest)
  then have o: "topic \<notin> set objectPrototype" and r: "set rest \<inter> set objectPrototype = {}"
    by auto
  show ?case
  proof (cases "map_of topicMap topic")
    case None
    then show ?thesis using Cons.IH [OF r, of techs] by (simp add: topicValue_own [OF o])
  next
    case (Some l)
    then show ?thesis using Cons.IH [OF r, of "techs @ [l]"] by (simp add: topicValue_own [OF o])
  qed
qed

lemma foldl_setAdd_map:
  "inj f \<Longrightarrow> foldl setAdd (map f acc) (map f xs) = map f (foldl setAdd acc xs)"
proof (induction xs arbitrary: acc)
  case Nil
  show ?case by simp
next
  case (Cons x xs)
  have "setAdd (map f acc) (f x) = map f (setAdd acc x)"
    using Cons.prems by (auto simp: setAdd_def inj_def)
  then show ?case using Cons.IH [OF Cons.prems, of "setAdd acc x"] by simp
qed

lemma inferTechValues_labels:
  assumes "set tps \<inter> set objectPrototype = {}"
  shows "inferTechValues lang tps = map Label (inferTechFromLanguage lang tps)"
proof -
  let ?l = "case lang of None \<Rightarrow> [] | Some l \<Rightarrow> if l = [] then [] else [l]"
  have i: "inj Label" by (simp add: inj_def)
  have "(case lang of None \<Rightarrow> [] | Some l \<Rightarrow> if l = [] then [] else [Label l]) = map Label ?l"
    by (simp split: option.split)
  then have "inferTechValues lang tps = spreadSet (map Label (pushTopics ?l tps))"
    using pushTopicValues_labels [OF assms, of ?l] by (simp add: inferTechValues_def)
  also have "\<dots> = map Label (spreadSet (pushTopics ?l tps))"
    using foldl_setAdd_map [OF i, of "[]" "pushTopics ?l tps"] by (simp add: spreadSet_def)
  finally show ?thesis by (simp add: inferTechFromLanguage_def)
qed

text \<open>A topic that names an inherited property puts a value that is no label into the
  list.\<close>

lemma inferTechValues_constructor:
  "inferTechValues (Some ''Python'') [''constructor'', ''docker'']
     = [Label ''Python'', Inherited ''constructor'', Label ''Docker'']"
  by code_simp

lemma processRepo_valid:
  "validateConfig z doc = Inr data \<Longrightarrow>
   processRepo ck z repo (Doc doc) readmeRaw tree = Some (overrideEntry ck repo data)"
  by (simp add: processRepo_def)

lemma processRepo_invalid:
  "validateConfig z doc = Inl errs \<Longrightarrow>
   processRepo ck z repo (Doc doc) readmeRaw tree = Some (autoEntry ck repo readmeRaw tree)"
  by (simp add: processRepo_def)

lemma overrideEntry_fields:
  "technologies (overrideEntry ck repo data)
     = Some (case technologies data of
               Some t \<Rightarrow> t
             | None \<Rightarrow> inferTechFromLanguage (language repo) (topics repo))"
  "category (overrideEntry ck repo data)
     = orStr (category data) (Some (inferCategoryFromTopics (topics repo) (language repo)))"
  "status (overrideEntry ck repo data)
     = Some (case status data of Some s \<Rightarrow> s | None \<Rightarrow> inferStatus ck repo)"
  "github (overrideEntry ck repo data) = url repo"
  "name (overrideEntry ck repo data) = name data"
  "dateCompleted (overrideEntry ck repo data) = dateCompleted data"
  "models (overrideEntry ck repo data) = models data"
  "images (overrideEntry ck repo data) = images data"
  "exclude (overrideEntry ck repo data) = exclude data"
  "featured (overrideEntry ck repo data) = featured data"
  by (simp_all add: overrideEntry_def PortfolioConfig.extend_def PortfolioEntry.fields_def
        split: option.split)

lemma validateConfig_Inr:
  assumes "validateConfig z doc = Inr data"
  shows "configFields z doc = ([], Some data)"
  using assms
  by (auto simp: validateConfig_def portfolioConfigSchema_def
           split: json.splits prod.splits list.splits option.splits)

lemma optional_array_unset:
  "fst (optional (zStringArray z p) v) = [] \<Longrightarrow>
   (snd (optional (zStringArray z p) v) = None) = (v = None)"
  by (cases v; cases "the v") (auto simp: optional_def)

lemma optional_string_unset:
  "fst (optional (zString z p) v) = [] \<Longrightarrow>
   (snd (optional (zString z p) v) = None) = (v = None)"
  by (cases v; cases "the v") (auto simp: optional_def)

lemma optional_date_unset:
  "fst (optional (zDateCompleted z p) v) = [] \<Longrightarrow>
   (snd (optional (zDateCompleted z p) v) = None) = (v = None)"
  by (cases v; cases "the v") (auto simp: optional_def split: if_splits)

lemma validate_unset:
  assumes "validateConfig z doc = Inr data"
  shows "(technologies data = None) = (jget ''technologies'' doc = None)"
    and "(category data = None) = (jget ''category'' doc = None)"
    and "(dateCompleted data = None) = (jget ''dateCompleted'' doc = None)"
proof -
  from validateConfig_Inr [OF assms]
  have c: "configFields z doc = ([], Some data)" .
  from c have t: "fst (optional (zStringArray z [''technologies'']) (jget ''technologies'' doc)) = []"
      "technologies data = snd (optional (zStringArray z [''technologies'']) (jget ''technologies'' doc))"
    by (auto simp: configFields_def Let_def split: option.splits)
  from c have g: "fst (optional (zString z [''category'']) (jget ''category'' doc)) = []"
      "category data = snd (optional (zString z [''category'']) (jget ''category'' doc))"
    by (auto simp: configFields_def Let_def split: option.splits)
  from c have d: "fst (optional (zDateCompleted z [''dateCompleted'']) (jget ''dateCompleted'' doc)) = []"
      "dateCompleted data = snd (optional (zDateCompleted z [''dateCompleted'']) (jget ''dateCompleted'' doc))"
    by (auto simp: configFields_def Let_def split: option.splits)
  show "(technologies data = None) = (jget ''technologies'' doc = None)"
    using t optional_array_unset by simp
  show "(category data = None) = (jget ''category'' doc = None)"
    using g optional_string_unset by simp
  show "(dateCompleted data = None) = (jget ''dateCompleted'' doc = None)"
    using d optional_date_unset by simp
qed

lemmas eval_validate = validateConfig_def portfolioConfigSchema_def configFields_def Let_def
  optional_def renderIssue_def exampleZod_def matchesYearMonth_def isDigitChar_def

lemma validate_robotArmDoc: "validateConfig exampleZod robotArmDoc
   = Inr (bareConfig \<lparr> featured := Some True, models := Some [''cad/arm.stl''] \<rparr>)"
  by (simp add: eval_validate robotArmDoc_def bareConfig_def)

lemma validate_fullDoc: "validateConfig exampleZod fullDoc
   = Inr (bareConfig \<lparr> category := Some ''Hardware'', technologies := Some [''ROS2''] \<rparr>)"
  by (simp add: eval_validate fullDoc_def bareConfig_def)

lemma validate_emptyCategoryDoc: "validateConfig exampleZod emptyCategoryDoc = Inr (bareConfig \<lparr> category := Some [] \<rparr>)"
  by (simp add: eval_validate emptyCategoryDoc_def bareConfig_def)

lemma validate_slashDateDoc: "validateConfig z slashDateDoc
    = Inl [''name: '' @ message z Required, ''dateCompleted: Must be YYYY-MM format'']"
  by (simp add: eval_validate slashDateDoc_def)

lemma validate_namedSlashDateDoc: "validateConfig z namedSlashDateDoc = Inl [''dateCompleted: Must be YYYY-MM format'']"
  by (simp add: eval_validate namedSlashDateDoc_def)

lemma robotRepo_tech: "inferTechFromLanguage (language robotRepo) (topics robotRepo) = [''Python'']"
  by (simp add: inferTechFromLanguage_def robotRepo_def spreadSet_def setAdd_def topicMap_def)

lemma robotRepo_category: "inferCategoryFromTopics (topics robotRepo) (language robotRepo) = ''Robotics''"
  by (simp add: inferCategoryFromTopics_def robotRepo_def)


lemma jget_append:
  "jget k (JObj (xs @ ys)) = (case jget k (JObj ys) of Some v \<Rightarrow> Some v | None \<Rightarrow> jget k (JObj xs))"
  by (simp add: map_add_def split: option.split)

lemma jget_member:
  "jget k (JObj (member k' f v)) = (if k = k' then map_option f v else None)"
  by (cases v) (simp_all add: member_def)

lemma jget_Cons:
  "jget k (JObj ((k', v) # ys))
     = (case jget k (JObj ys) of Some w \<Rightarrow> Some w | None \<Rightarrow> if k = k' then Some v else None)"
  by (simp add: map_add_def split: option.split)

lemma jget_Nil: "jget k (JObj []) = None"
  by simp

lemma jget_entry_arrays:
  "jget ''technologies'' (entryJson e) = map_option jsonStrings (technologies e)"
  "jget ''models'' (entryJson e) = map_option jsonStrings (models e)"
  "jget ''images'' (entryJson e) = map_option jsonStrings (images e)"
  by (simp_all add: entryJson_def configMembers_def jget_append jget_member jget_Cons jget_Nil
        del: jget.simps split: option.split)

lemma jsonStrings_empty: "(jsonStrings xs = JArr []) = (xs = [])"
  by (simp add: jsonStrings_def)

lemma autoEntry_arrays:
  "models (autoEntry ck repo readmeRaw tree)
     = (if fst (findAssetsInTree tree) = [] then None else Some (fst (findAssetsInTree tree)))"
  "images (autoEntry ck repo readmeRaw tree)
     = (if snd (findAssetsInTree tree) = [] then None else Some (snd (findAssetsInTree tree)))"
  "technologies (autoEntry ck repo readmeRaw tree)
     = Some (inferTechFromLanguage (language repo) (topics repo))"
  "dateCompleted (autoEntry ck repo readmeRaw tree) = Some (toYearMonth ck (pushedAt repo))"
  by (simp_all add: autoEntry_def Let_def)

lemma validate_nameOnlyDoc: "validateConfig exampleZod nameOnlyDoc = Inr bareConfig"
  by (simp add: eval_validate nameOnlyDoc_def bareConfig_def)

lemma validate_excludedDoc:
  "validateConfig exampleZod excludedDoc = Inr (bareConfig \<lparr> exclude := Some True \<rparr>)"
  by (simp add: eval_validate excludedDoc_def bareConfig_def)

lemma validate_emptyModelsDoc:
  "validateConfig exampleZod emptyModelsDoc = Inr (bareConfig \<lparr> models := Some [] \<rparr>)"
  by (simp add: eval_validate emptyModelsDoc_def bareConfig_def)

lemma robotRepo_status: "inferStatus exampleClock robotRepo = Completed"
  by (simp add: inferStatus_def robotRepo_def exampleClock_def dateBefore_def)

lemma robotRepo_yearMonth: "toYearMonth exampleClock (pushedAt robotRepo) = ''2024-03''"
  by (simp add: toYearMonth_def robotRepo_def exampleClock_def showInt_def padStart2_def)

lemma busyRepo_tech:
  "inferTechFromLanguage (language busyRepo) (topics busyRepo) = [''Python'', ''Docker'', ''Three.js'']"
  by code_simp

lemma busyRepo_category: "inferCategoryFromTopics (topics busyRepo) (language busyRepo) = ''Robotics''"
  by code_simp

lemma busyRepo_topics: "set (topics busyRepo) \<inter> set objectPrototype = {}"
  by code_simp

text \<open>
  Claim C2, as the code has it. For a repository whose override document is valid and
  none of whose topics names a property that objects inherit (such as \<open>constructor\<close>):
  when the document has no \<open>technologies\<close> member the entry's technologies are the
  detected ones, that is the language followed by the labels of the mapped topics, each
  kept at its first occurrence only, and this list is what the loop of the code
  computes; when the document has no \<open>category\<close> member the entry's category is the
  detected one. For every repository a \<open>technologies\<close> array of the override wins, a
  \<open>category\<close> of the override wins when it is not the empty string, and an empty
  \<open>category\<close> is treated like a missing one. The merge of the web variant does the same
  with its own category list.
\<close>

theorem override_unset_technologies_category_inferred:
  assumes "validateConfig z doc = Inr data"
  shows "(set (topics repo) \<inter> set objectPrototype = {} \<longrightarrow>
          jget ''technologies'' doc = None \<longrightarrow>
          map_option technologies (processRepo ck z repo (Doc doc) readmeRaw tree)
            = Some (Some (inferTechFromLanguage (language repo) (topics repo))))
     \<and> (jget ''category'' doc = None \<longrightarrow>
          map_option category (processRepo ck z repo (Doc doc) readmeRaw tree)
            = Some (Some (inferCategoryFromTopics (topics repo) (language repo))))
     \<and> (\<forall>t. technologies data = Some t \<longrightarrow>
          map_option technologies (processRepo ck z repo (Doc doc) readmeRaw tree)
            = Some (Some t))
     \<and> (\<forall>c. category data = Some c \<longrightarrow> c \<noteq> [] \<longrightarrow>
          map_option category (processRepo ck z repo (Doc doc) readmeRaw tree)
            = Some (Some c))
     \<and> (category data = Some [] \<longrightarrow>
          map_option category (processRepo ck z repo (Doc doc) readmeRaw tree)
            = Some (Some (inferCategoryFromTopics (topics repo) (language repo))))
     \<and> (set (topics repo) \<inter> set objectPrototype = {} \<longrightarrow>
          inferTechValues (language repo) (topics repo)
            = map Label (inferTechFromLanguage (language repo) (topics repo)))
     \<and> inferTechFromLanguage (language repo) (topics repo)
          = rev (remdups (rev (detectedLabels (language repo) (topics repo))))
     \<and> distinct (inferTechFromLanguage (language repo) (topics repo))
     \<and> (set (topics repo) \<inter> set objectPrototype = {} \<longrightarrow>
          technologies data = None \<longrightarrow>
          technologies (webOverrideEntry ck repo data)
            = Some (rev (remdups (rev (detectedLabels (language repo) (topics repo))))))
     \<and> (category data = None \<longrightarrow>
          category (webOverrideEntry ck repo data)
            = Some (inferCategory (topics repo) (language repo)))
     \<and> (\<forall>t. technologies data = Some t \<longrightarrow>
          technologies (webOverrideEntry ck repo data) = Some t)
     \<and> (\<forall>c. category data = Some c \<longrightarrow> c \<noteq> [] \<longrightarrow>
          category (webOverrideEntry ck repo data) = Some c)"
proof -
  let ?e = "overrideEntry ck repo data"
  have p: "processRepo ck z repo (Doc doc) readmeRaw tree = Some ?e"
    using assms by (rule processRepo_valid)
  have t0: "jget ''technologies'' doc = None \<longrightarrow>
          technologies ?e = Some (inferTechFromLanguage (language repo) (topics repo))"
    using validate_unset(1) [OF assms] by (auto simp: overrideEntry_fields)
  have c0: "jget ''category'' doc = None \<longrightarrow>
          category ?e = Some (inferCategoryFromTopics (topics repo) (language repo))"
    using validate_unset(2) [OF assms] by (auto simp: overrideEntry_fields orStr_def)
  have t1: "\<forall>t. technologies data = Some t \<longrightarrow> technologies ?e = Some t"
    by (simp add: overrideEntry_fields)
  have c1: "\<forall>c. category data = Some c \<longrightarrow> c \<noteq> [] \<longrightarrow> category ?e = Some c"
    by (simp add: overrideEntry_fields orStr_def)
  have c2: "category data = Some [] \<longrightarrow>
          category ?e = Some (inferCategoryFromTopics (topics repo) (language repo))"
    by (simp add: overrideEntry_fields orStr_def)
  have v: "set (topics repo) \<inter> set objectPrototype = {} \<longrightarrow>
          inferTechValues (language repo) (topics repo)
            = map Label (inferTechFromLanguage (language repo) (topics repo))"
    by (simp add: inferTechValues_labels)
  have d: "distinct (inferTechFromLanguage (language repo) (topics repo))"
    by (simp add: inferTechFromLanguage_eq)
  have w1: "technologies data = None \<longrightarrow>
          technologies (webOverrideEntry ck repo data)
            = Some (rev (remdups (rev (detectedLabels (language repo) (topics repo)))))"
    by (simp add: webOverrideEntry_def inferTech_eq inferTechFromLanguage_eq)
  have w2: "category data = None \<longrightarrow>
          category (webOverrideEntry ck repo data)
            = Some (inferCategory (topics repo) (language repo))"
    by (simp add: webOverrideEntry_def orStr_def)
  have w3: "\<forall>t. technologies data = Some t \<longrightarrow>
          technologies (webOverrideEntry ck repo data) = Some t"
    by (simp add: webOverrideEntry_def)
  have w4: "\<forall>c. category data = Some c \<longrightarrow> c \<noteq> [] \<longrightarrow>
          category (webOverrideEntry ck repo data) = Some c"
    by (simp add: webOverrideEntry_def orStr_def)
  show ?thesis
    unfolding p option.map
    using t0 c0 t1 c1 c2 v d w1 w2 w3 w4
          inferTechFromLanguage_eq [of "language repo" "topics repo"]
    by (intro conjI) simp_all
qed

text \<open>The scenario of the specification (override \<open>Robot Arm\<close>, featured, one model) on a
  repository with language Python whose topics include \<open>robotics\<close> and mapped topics,
  some twice; and an override that sets both fields.\<close>

theorem override_unset_technologies_category_inferred_witness:
  "validateConfig exampleZod robotArmDoc
     = Inr (bareConfig \<lparr> featured := Some True, models := Some [''cad/arm.stl''] \<rparr>)
   \<and> set (topics busyRepo) \<inter> set objectPrototype = {}
   \<and> jget ''technologies'' robotArmDoc = None \<and> jget ''category'' robotArmDoc = None
   \<and> detectedLabels (language busyRepo) (topics busyRepo)
       = [''Python'', ''Python'', ''Docker'', ''Python'', ''Three.js'', ''Three.js'']
   \<and> map_option technologies
        (processRepo exampleClock exampleZod busyRepo (Doc robotArmDoc) None [])
       = Some (Some [''Python'', ''Docker'', ''Three.js''])
   \<and> map_option category
        (processRepo exampleClock exampleZod busyRepo (Doc robotArmDoc) None [])
       = Some (Some ''Robotics'')
   \<and> inferTechValues (language busyRepo) (topics busyRepo)
       = [Label ''Python'', Label ''Docker'', Label ''Three.js'']
   \<and> validateConfig exampleZod fullDoc
     = Inr (bareConfig \<lparr> category := Some ''Hardware'', technologies := Some [''ROS2''] \<rparr>)
   \<and> map_option technologies
        (processRepo exampleClock exampleZod busyRepo (Doc fullDoc) None [])
       = Some (Some [''ROS2''])
   \<and> map_option category
        (processRepo exampleClock exampleZod busyRepo (Doc fullDoc) None [])
       = Some (Some ''Hardware'')"
proof -
  have j: "jget ''technologies'' robotArmDoc = None" "jget ''category'' robotArmDoc = None"
    by (simp_all add: robotArmDoc_def)
  have l: "detectedLabels (language busyRepo) (topics busyRepo)
       = [''Python'', ''Python'', ''Docker'', ''Python'', ''Three.js'', ''Three.js'']"
    by code_simp
  have f: "technologies (bareConfig \<lparr> category := Some ''Hardware'',
                                       technologies := Some [''ROS2''] \<rparr>) = Some [''ROS2'']"
     "category (bareConfig \<lparr> category := Some ''Hardware'',
                                       technologies := Some [''ROS2''] \<rparr>) = Some ''Hardware''"
    by simp_all
  note r = override_unset_technologies_category_inferred
          [OF validate_robotArmDoc, of busyRepo exampleClock None "[]"]
  note u = override_unset_technologies_category_inferred
          [OF validate_fullDoc, of busyRepo exampleClock None "[]"]
  have a1: "map_option technologies
        (processRepo exampleClock exampleZod busyRepo (Doc robotArmDoc) None [])
       = Some (Some [''Python'', ''Docker'', ''Three.js''])"
    using r [THEN conjunct1] busyRepo_topics j(1) by (simp add: busyRepo_tech)
  have a2: "map_option category
        (processRepo exampleClock exampleZod busyRepo (Doc robotArmDoc) None [])
       = Some (Some ''Robotics'')"
    using r [THEN conjunct2, THEN conjunct1] j(2) by (simp add: busyRepo_category)
  have a3: "inferTechValues (language busyRepo) (topics busyRepo)
       = [Label ''Python'', Label ''Docker'', Label ''Three.js'']"
    using r [THEN conjunct2, THEN conjunct2, THEN conjunct2, THEN conjunct2, THEN conjunct2,
             THEN conjunct1] busyRepo_topics
    by (simp add: busyRepo_tech)
  have b1: "map_option technologies
        (processRepo exampleClock exampleZod busyRepo (Doc fullDoc) None [])
       = Some (Some [''ROS2''])"
    using u [THEN conjunct2, THEN conjunct2, THEN conjunct1] f(1) by blast
  have b2: "map_option category
        (processRepo exampleClock exampleZod busyRepo (Doc fullDoc) None [])
       = Some (Some ''Hardware'')"
    using u [THEN conjunct2, THEN conjunct2, THEN conjunct2, THEN conjunct1] f(2) by blast
  from validate_robotArmDoc validate_fullDoc busyRepo_topics j l a1 a2 a3 b1 b2
  show ?thesis by simp
qed

text \<open>The claim as written (an override value that is present wins) fails for a category
  that is present and empty.\<close>

theorem empty_override_category_loses:
  "validateConfig exampleZod emptyCategoryDoc = Inr (bareConfig \<lparr> category := Some [] \<rparr>)
   \<and> jget ''category'' emptyCategoryDoc = Some (JStr [])
   \<and> map_option category
        (processRepo exampleClock exampleZod robotRepo (Doc emptyCategoryDoc) None [])
       = Some (Some ''Robotics'')"
proof -
  have j: "jget ''category'' emptyCategoryDoc = Some (JStr [])"
    by (simp add: emptyCategoryDoc_def)
  have p: "map_option category
        (processRepo exampleClock exampleZod robotRepo (Doc emptyCategoryDoc) None [])
       = Some (Some ''Robotics'')"
    by (simp add: processRepo_valid [OF validate_emptyCategoryDoc] overrideEntry_fields
          orStr_def robotRepo_category)
  from validate_emptyCategoryDoc j p show ?thesis by simp
qed

lemma autoEntry_robot_date:
  "dateCompleted (autoEntry exampleClock robotRepo None []) = Some ''2024-03''"
  by (simp add: autoEntry_arrays robotRepo_yearMonth)

text \<open>
  Claim C5 at a concrete repository (pushed in March 2024) whose override document is
  \<open>{"name": "Robot Arm"}\<close>: the document is valid and leaves \<open>dateCompleted\<close> unset, the
  year-month of the push is \<open>2024-03\<close>, and the entry that \<open>processRepo\<close> of generate.ts
  returns has no \<open>dateCompleted\<close> at all. Without an override the same repository gets
  \<open>2024-03\<close>, and so does the override merge of the web variant.
\<close>

theorem override_without_date_gets_no_default:
  "validateConfig exampleZod nameOnlyDoc = Inr bareConfig
   \<and> jget ''dateCompleted'' nameOnlyDoc = None
   \<and> toYearMonth exampleClock (pushedAt robotRepo) = ''2024-03''
   \<and> map_option dateCompleted
        (processRepo exampleClock exampleZod robotRepo (Doc nameOnlyDoc) None []) = Some None
   \<and> map_option dateCompleted
        (processRepo exampleClock exampleZod robotRepo Absent None []) = Some (Some ''2024-03'')
   \<and> dateCompleted (webOverrideEntry exampleClock robotRepo bareConfig) = Some ''2024-03''"
proof -
  have j: "jget ''dateCompleted'' nameOnlyDoc = None"
    by (simp add: nameOnlyDoc_def)
  have a: "map_option dateCompleted
        (processRepo exampleClock exampleZod robotRepo (Doc nameOnlyDoc) None []) = Some None"
    by (simp add: processRepo_valid [OF validate_nameOnlyDoc] overrideEntry_fields
          bareConfig_def)
  have b: "map_option dateCompleted
        (processRepo exampleClock exampleZod robotRepo Absent None []) = Some (Some ''2024-03'')"
    by (simp add: processRepo_def autoEntry_robot_date)
  have c: "dateCompleted (webOverrideEntry exampleClock robotRepo bareConfig) = Some ''2024-03''"
    by (simp add: webOverrideEntry_def orStr_def bareConfig_def robotRepo_yearMonth)
  from validate_nameOnlyDoc j robotRepo_yearMonth a b c show ?thesis by simp
qed

lemma override_keeps_dateCompleted:
  "validateConfig z doc = Inr data \<Longrightarrow>
   map_option dateCompleted (processRepo ck z repo (Doc doc) readmeRaw tree)
     = Some (dateCompleted data)"
  by (simp add: processRepo_valid overrideEntry_fields)

text \<open>The document \<open>{"dateCompleted": "2024/03"}\<close> has no \<open>name\<close>: the validator reports
  two errors, not one.\<close>

theorem slash_date_two_errors:
  "validateConfig exampleZod slashDateDoc
     = Inl [''name: Required'', ''dateCompleted: Must be YYYY-MM format'']
   \<and> (case validateConfig exampleZod slashDateDoc of Inl errs \<Rightarrow> length errs | Inr _ \<Rightarrow> 0) = 2"
  by (simp add: validate_slashDateDoc exampleZod_def)

text \<open>
  Claim C6, as the code has it. For \<open>{"name": "Robot Arm", "dateCompleted": "2024/03"}\<close>
  the validator fails with exactly one error, \<open>dateCompleted: Must be YYYY-MM format\<close>.
  For \<open>{"dateCompleted": "2024/03"}\<close> alone it fails with two: the missing \<open>name\<close> first,
  then the same error. In both cases, and when the file is not JSON at all, \<open>processRepo\<close>
  returns the auto-detected entry, whose date is the year-month of the last push.
\<close>

theorem slash_date_rejected_then_auto_detected:
  "validateConfig z namedSlashDateDoc = Inl [''dateCompleted: Must be YYYY-MM format'']
   \<and> validateConfig z slashDateDoc
       = Inl [''name: '' @ message z Required, ''dateCompleted: Must be YYYY-MM format'']
   \<and> processRepo ck z repo (Doc namedSlashDateDoc) readmeRaw tree
       = Some (autoEntry ck repo readmeRaw tree)
   \<and> processRepo ck z repo (Doc slashDateDoc) readmeRaw tree
       = Some (autoEntry ck repo readmeRaw tree)
   \<and> processRepo ck z repo Malformed readmeRaw tree = Some (autoEntry ck repo readmeRaw tree)
   \<and> dateCompleted (autoEntry ck repo readmeRaw tree) = Some (toYearMonth ck (pushedAt repo))"
  by (simp add: validate_slashDateDoc validate_namedSlashDateDoc processRepo_invalid
        autoEntry_arrays)
    (simp add: processRepo_def)

lemma excluded_entry:
  "overrideEntry exampleClock robotRepo (bareConfig \<lparr> exclude := Some True \<rparr>)
     = \<lparr> name = ''Robot Arm'', shortDescription = None, description = None,
         category = Some ''Robotics'', technologies = Some [''Python''],
         status = Some Completed, dateCompleted = None, models = None, images = None,
         thumbnail = None, media = None, links = None, featured = None,
         exclude = Some True, github = ''https://github.com/alice/robot-arm'' \<rparr>"
  by (simp add: overrideEntry_def PortfolioConfig.extend_def PortfolioEntry.fields_def
        bareConfig_def robotRepo_tech robotRepo_category robotRepo_status orStr_def)
     (simp add: robotRepo_def)

lemma generate_excluded_entries:
  "generateEntries exampleClock exampleZod (clientWith excludedDoc) [] [robotRepo]
     = [overrideEntry exampleClock robotRepo (bareConfig \<lparr> exclude := Some True \<rparr>)]"
proof -
  have n: "\<not> startsWith (repo_name robotRepo) ''.''"
    by (simp add: startsWith_def robotRepo_def)
  have g: "getFileContent (clientWith excludedDoc) nm = Doc excludedDoc" for nm
    by (simp add: clientWith_def)
  show ?thesis
    by (simp add: generateEntries_def n g processRepo_valid [OF validate_excludedDoc]
          arraySort_def)
qed

text \<open>
  Claim C1 at a concrete repository whose override document is
  \<open>{"name": "Robot Arm", "exclude": true}\<close>: the document is valid, and \<open>generate\<close> of
  generate.ts emits the repository in each of the three encodings (the JSON even carries
  \<open>"exclude": true\<close>). The web variant disables such an entry, and \<open>formatEntries\<close>
  drops it.
\<close>

theorem excluded_repository_is_emitted:
  "validateConfig exampleZod excludedDoc = Inr (bareConfig \<lparr> exclude := Some True \<rparr>)
   \<and> map github (generateEntries exampleClock exampleZod (clientWith excludedDoc) [] [robotRepo])
       = [url robotRepo]
   \<and> generate exampleClock exampleZod (clientWith excludedDoc) [] Json [robotRepo]
       = JsonDoc (JObj [(''projects'', JArr [JObj
           [(''name'', JStr ''Robot Arm''), (''category'', JStr ''Robotics''),
            (''technologies'', JArr [JStr ''Python'']), (''status'', JStr ''Completed''),
            (''exclude'', JBool True),
            (''github'', JStr ''https://github.com/alice/robot-arm'')]])])
   \<and> generate exampleClock exampleZod (clientWith excludedDoc) [] Yaml [robotRepo]
       = TextDoc (join [CHR 0x0A]
           [''projects:'', ''  - name: \"Robot Arm\"'', ''    category: Robotics'',
            ''    technologies: [Python]'', ''    status: Completed'',
            ''    github: https://github.com/alice/robot-arm'', ''''])
   \<and> generate exampleClock exampleZod (clientWith excludedDoc) [] Markdown [robotRepo]
       = TextDoc (join [CHR 0x0A]
           [''# Portfolio '' @ emDash @ '' 1 projects'' @ [CHR 0x0A],
            ''## Robotics'' @ [CHR 0x0A], ''### Robot Arm'' @ [CHR 0x0A],
            ''- **Tech:** Python'', ''- **Status:** Completed'',
            ''- **GitHub:** https://github.com/alice/robot-arm'', ''''])
   \<and> enabledEntries [webOverrideEntry exampleClock robotRepo
                         (bareConfig \<lparr> exclude := Some True \<rparr>)] = []"
proof -
  let ?es = "generateEntries exampleClock exampleZod (clientWith excludedDoc) [] [robotRepo]"
  have g: "map github ?es = [url robotRepo]"
    by (simp add: generate_excluded_entries overrideEntry_fields)
  have j: "generate exampleClock exampleZod (clientWith excludedDoc) [] Json [robotRepo]
       = JsonDoc (JObj [(''projects'', JArr [JObj
           [(''name'', JStr ''Robot Arm''), (''category'', JStr ''Robotics''),
            (''technologies'', JArr [JStr ''Python'']), (''status'', JStr ''Completed''),
            (''exclude'', JBool True),
            (''github'', JStr ''https://github.com/alice/robot-arm'')]])])"
    by (simp add: generate_def generate_excluded_entries excluded_entry formatOutput_def
          toJson_def entryJson_def configMembers_def member_def jsonStrings_def statusName_def)
  have y: "generate exampleClock exampleZod (clientWith excludedDoc) [] Yaml [robotRepo]
       = TextDoc (join [CHR 0x0A]
           [''projects:'', ''  - name: \"Robot Arm\"'', ''    category: Robotics'',
            ''    technologies: [Python]'', ''    status: Completed'',
            ''    github: https://github.com/alice/robot-arm'', ''''])"
    by (simp add: generate_def generate_excluded_entries excluded_entry formatOutput_def
          toYaml_def toYamlLines_def yamlEntry_def strOf_def arrOf_def linkOf_def videoOf_def
          statusName_def)
  have m: "generate exampleClock exampleZod (clientWith excludedDoc) [] Markdown [robotRepo]
       = TextDoc (join [CHR 0x0A]
           [''# Portfolio '' @ emDash @ '' 1 projects'' @ [CHR 0x0A],
            ''## Robotics'' @ [CHR 0x0A], ''### Robot Arm'' @ [CHR 0x0A],
            ''- **Tech:** Python'', ''- **Status:** Completed'',
            ''- **GitHub:** https://github.com/alice/robot-arm'', ''''])"
    by (simp add: generate_def generate_excluded_entries excluded_entry formatOutput_def
          toMarkdown_def toMarkdownLines_def markdownProject_def groupByCategory_def
          categoryOf_def strOf_def arrOf_def linkOf_def videoOf_def statusName_def)
  have w: "enabledEntries [webOverrideEntry exampleClock robotRepo
                         (bareConfig \<lparr> exclude := Some True \<rparr>)] = []"
    by (simp add: enabledEntries_def webOverrideEntry_def)
  from validate_excludedDoc g j y m w show ?thesis by simp
qed

text \<open>An override document with \<open>"models": []\<close> is valid, and the entry is written with
  \<open>"models": []\<close>.\<close>

theorem empty_override_models_emitted:
  "validateConfig exampleZod emptyModelsDoc = Inr (bareConfig \<lparr> models := Some [] \<rparr>)
   \<and> map_option (\<lambda>e. jget ''models'' (entryJson e))
        (processRepo exampleClock exampleZod robotRepo (Doc emptyModelsDoc) None [])
       = Some (Some (JArr []))"
  by (simp add: validate_emptyModelsDoc processRepo_valid [OF validate_emptyModelsDoc]
        jget_entry_arrays overrideEntry_fields jsonStrings_def)

text \<open>
  Claim C3, as the code has it. In the JSON of an auto-detected entry \<open>models\<close> and
  \<open>images\<close> are never written as an empty array. In the JSON of any entry each of
  \<open>technologies\<close>, \<open>models\<close>, \<open>images\<close> is written exactly when the entry has the field,
  with the strings of the field. An entry made from a valid override has the \<open>models\<close>
  and \<open>images\<close> of the override document as they are, and its \<open>technologies\<close> when the
  document has them, so that an empty array of the document is written as an empty array.
\<close>

theorem arrays_non_empty_or_absent:
  "jget ''models'' (entryJson (autoEntry ck repo readmeRaw tree)) \<noteq> Some (JArr [])
   \<and> jget ''images'' (entryJson (autoEntry ck repo readmeRaw tree)) \<noteq> Some (JArr [])
   \<and> jget ''technologies'' (entryJson e) = map_option jsonStrings (technologies e)
   \<and> jget ''models'' (entryJson e) = map_option jsonStrings (models e)
   \<and> jget ''images'' (entryJson e) = map_option jsonStrings (images e)
   \<and> models (overrideEntry ck repo data) = models data
   \<and> images (overrideEntry ck repo data) = images data
   \<and> (\<forall>t. technologies data = Some t \<longrightarrow> technologies (overrideEntry ck repo data) = Some t)
   \<and> models (webOverrideEntry ck repo data) = models data
   \<and> images (webOverrideEntry ck repo data) = images data"
  by (simp add: jget_entry_arrays autoEntry_arrays jsonStrings_empty overrideEntry_fields
        webOverrideEntry_def)

theorem arrays_non_empty_or_absent_witness:
  "technologies (bareConfig \<lparr> technologies := Some [] \<rparr>) = Some []
   \<and> technologies (overrideEntry exampleClock robotRepo (bareConfig \<lparr> technologies := Some [] \<rparr>))
       = Some []
   \<and> jget ''models'' (entryJson (autoEntry exampleClock robotRepo None scenarioListing))
       = Some (JArr [JStr ''cad/arm.stl''])
   \<and> jget ''images'' (entryJson (autoEntry exampleClock robotRepo None []))  = None"
  using arrays_non_empty_or_absent
          [of exampleClock robotRepo None scenarioListing
              "autoEntry exampleClock robotRepo None scenarioListing"
              "bareConfig \<lparr> technologies := Some [] \<rparr>"]
        arrays_non_empty_or_absent
          [of exampleClock robotRepo None "[]" "autoEntry exampleClock robotRepo None []"
              "bareConfig \<lparr> technologies := Some [] \<rparr>"]
  by (simp add: autoEntry_arrays jsonStrings_def findAssetsInTree_def scenarioListing_def
        fileExt_def MODEL_EXTS_def IMAGE_EXTS_def IMAGE_DIRS_def startsWith_def toLowerCase_def
        lowerChar_def isUpperChar_def)

section \<open>README extraction\<close>

lemma matchFirstSentence_Some:
  assumes "matchFirstSentence s = Some m"
  shows "prefix m s \<and> m \<noteq> [] \<and> isSentenceEnd (last m)
         \<and> (\<forall>c\<in>set (butlast m). \<not> isSentenceEnd c)"
proof -
  let ?P = "\<lambda>c. \<not> isSentenceEnd c"
  from assms obtain c cs where r: "dropWhile ?P s = c # cs" "m = takeWhile ?P s @ [c]"
    by (auto simp: matchFirstSentence_def Let_def split: if_splits list.splits)
  have "s = takeWhile ?P s @ dropWhile ?P s" by simp
  then have s: "s = m @ cs" using r by simp
  have e: "isSentenceEnd c" using r(1) hd_dropWhile [of ?P s] by auto
  have n: "\<forall>c\<in>set (takeWhile ?P s). \<not> isSentenceEnd c" by (auto dest: set_takeWhileD)
  have p: "prefix m s" using s by (metis prefixI)
  from p e n r(2) show ?thesis by simp
qed

lemma paragraphLoop_content:
  assumes "\<forall>l\<in>set ls. \<not> isSkippable l"
  shows "paragraphLoop True acc (ls @ rest) = paragraphLoop True (acc @ map trim ls) rest"
  using assms by (induction ls arbitrary: acc) simp_all

lemma paragraphLoop_stops:
  assumes "\<forall>l\<in>set ls. \<not> isSkippable l" "ls \<noteq> []" "isSkippable b"
  shows "paragraphLoop True [] (ls @ b # rest) = map trim ls"
  using assms by (simp add: paragraphLoop_content)

text \<open>
  Claim C7, as the code has it. For the README of the scenario the README parser of the
  local scan (\<open>parseReadme\<close>) returns the short description \<open>This project does X.\<close> and
  the description \<open>This project does X. It also does Y.\<close>: no section named Description,
  About or Overview exists, the badge line and the blank lines are skipped, the first
  paragraph ends at the blank line after it, and the short description is its first
  sentence. The extraction inside \<open>processRepo\<close> of generate.ts follows other rules (it
  skips only lines that start with \<open>[![\<close> or \<open><\<close> and takes up to three lines): for a
  repository without a description it makes both fields the text
  \<open>![badge](url) This project does X. It also does Y. More text.\<close>
\<close>

theorem readme_scenario_local:
  "parseReadme (Some scenarioReadme)
     = \<lparr> r_description = Some ''This project does X. It also does Y.'',
         r_shortDescription = Some ''This project does X.'' \<rparr>
   \<and> extractSection scenarioReadme [''description'', ''about'', ''overview''] = None
   \<and> extractFirstParagraph scenarioReadme = Some ''This project does X. It also does Y.''
   \<and> firstSentence ''This project does X. It also does Y.'' = ''This project does X.''
   \<and> isSkippable ''![badge](url)'' \<and> isSkippable []
   \<and> describeRepo None (Some scenarioReadme)
       = (Some ''![badge](url) This project does X. It also does Y. More text.'',
          Some ''![badge](url) This project does X. It also does Y. More text.'')"
  by code_simp

text \<open>The claim as written fails for the extraction of generate.ts: the entry of a
  repository without description gets the badge line and all three text lines.\<close>

theorem readme_scenario_remote_differs:
  "map_option (\<lambda>e. (shortDescription e, description e))
     (processRepo exampleClock exampleZod plainRepo Absent (Some scenarioReadme) [])
   = Some (Some ''![badge](url) This project does X. It also does Y. More text.'',
           Some ''![badge](url) This project does X. It also does Y. More text.'')"
  by code_simp

section \<open>Asset classification\<close>

lemma split_not_Nil: "split c xs \<noteq> []"
  by (induction xs) (auto split: list.split)

lemma split_no_sep: "c \<notin> set t \<Longrightarrow> split c t = [t]"
  by (induction t) auto

lemma split_last_sep: "c \<notin> set t \<Longrightarrow> split c (pre @ c # t) = split c pre @ [t]"
  by (induction pre) (auto simp: split_no_sep split_not_Nil split: list.split)

lemma last_split_after: "c \<notin> set t \<Longrightarrow> last (split c (pre @ c # t)) = t"
  by (simp add: split_last_sep)

lemma split_map:
  assumes "\<And>x. (g x = c) = (x = c)"
  shows "split c (map g xs) = map (map g) (split c xs)"
  by (induction xs) (auto simp: assms split: list.split)

lemma lowerChar_dot: "(lowerChar x = CHR ''.'') = (x = CHR ''.'')"
proof (cases "isUpperChar x")
  case False
  then show ?thesis by (simp add: lowerChar_def)
next
  case True
  then have b: "65 \<le> (of_char x :: nat)" "(of_char x :: nat) \<le> 90"
    by (simp_all add: isUpperChar_def less_eq_char_def)
  then have h: "of_char (char_of (of_char x + (32::nat)) :: char) = (of_char x + 32 :: nat)"
    by simp
  have "lowerChar x \<noteq> CHR ''.''"
  proof
    assume "lowerChar x = CHR ''.''"
    with True have "(char_of (of_char x + (32::nat)) :: char) = CHR ''.''"
      by (simp add: lowerChar_def)
    then have "of_char (char_of (of_char x + (32::nat)) :: char) = (of_char (CHR ''.'') :: nat)"
      by simp
    with h b show False by simp
  qed
  moreover have "x \<noteq> CHR ''.''" using b by auto
  ultimately show ?thesis by simp
qed

lemma fileExt_lower:
  "fileExt f = CHR ''.'' # last (split (CHR ''.'') (toLowerCase f))"
  by (simp add: fileExt_def toLowerCase_def split_map [OF lowerChar_dot] last_map split_not_Nil)

lemma fileExt_suffix:
  assumes "CHR ''.'' \<in> set f" "CHR ''.'' \<notin> set s"
  shows "(fileExt f = CHR ''.'' # s) = suffix (CHR ''.'' # s) (toLowerCase f)"
proof
  assume e: "fileExt f = CHR ''.'' # s"
  have "lowerChar (CHR ''.'') = CHR ''.''" by (simp add: lowerChar_dot)
  with assms(1) have "CHR ''.'' \<in> set (toLowerCase f)"
    unfolding toLowerCase_def set_map by (metis image_eqI)
  then obtain a u where d: "toLowerCase f = a @ CHR ''.'' # u" "CHR ''.'' \<notin> set u"
    by (auto dest: split_list_last)
  then have "last (split (CHR ''.'') (toLowerCase f)) = u"
    by (simp add: last_split_after)
  with e have "u = s" by (simp add: fileExt_lower)
  with d show "suffix (CHR ''.'' # s) (toLowerCase f)" by (simp add: suffix_def)
next
  assume "suffix (CHR ''.'' # s) (toLowerCase f)"
  then obtain a where "toLowerCase f = a @ CHR ''.'' # s" by (auto simp: suffix_def)
  with assms(2) show "fileExt f = CHR ''.'' # s"
    by (simp add: fileExt_lower last_split_after)
qed

lemma findAssetsLoop_filter:
  "findAssetsLoop mods imgs files
     = (mods @ filter (\<lambda>f. fileExt f \<in> set MODEL_EXTS) files,
        imgs @ filter (\<lambda>f. fileExt f \<in> set IMAGE_EXTS
                          \<and> (\<exists>d\<in>set IMAGE_DIRS. prefix d f)) files)"
  by (induction files arbitrary: mods imgs)
     (auto simp: Let_def list_ex_iff startsWith_def)

lemma findAssetsInTree_filter:
  "findAssetsInTree files
     = (filter (\<lambda>f. fileExt f \<in> set MODEL_EXTS) files,
        filter (\<lambda>f. fileExt f \<in> set IMAGE_EXTS \<and> (\<exists>d\<in>set IMAGE_DIRS. prefix d f)) files)"
  by (simp add: findAssetsInTree_def findAssetsLoop_filter)

lemma ext_shape:
  "e \<in> set MODEL_EXTS \<union> set IMAGE_EXTS \<Longrightarrow>
   \<exists>s. e = CHR ''.'' # s \<and> CHR ''.'' \<notin> set s \<and> toLowerCase e = e"
  by (auto simp: MODEL_EXTS_def IMAGE_EXTS_def toLowerCase_def lowerChar_def isUpperChar_def)

lemma fileExt_in_exts:
  assumes "CHR ''.'' \<in> set f" "set E \<subseteq> set MODEL_EXTS \<union> set IMAGE_EXTS"
  shows "(fileExt f \<in> set E) = (\<exists>e\<in>set E. suffix e (toLowerCase f))"
proof
  assume a: "fileExt f \<in> set E"
  then obtain s where s: "fileExt f = CHR ''.'' # s" "CHR ''.'' \<notin> set s"
    using ext_shape assms(2) by blast
  have "suffix (CHR ''.'' # s) (toLowerCase f)"
    using fileExt_suffix [OF assms(1) s(2)] s(1) by simp
  then have "suffix (fileExt f) (toLowerCase f)" using s(1) by simp
  with a show "\<exists>e\<in>set E. suffix e (toLowerCase f)" by blast
next
  assume "\<exists>e\<in>set E. suffix e (toLowerCase f)"
  then obtain e where e: "e \<in> set E" "suffix e (toLowerCase f)" by blast
  then obtain s where s: "e = CHR ''.'' # s" "CHR ''.'' \<notin> set s"
    using ext_shape assms(2) by blast
  have "fileExt f = CHR ''.'' # s"
    using fileExt_suffix [OF assms(1) s(2)] e(2) s(1) by simp
  with e(1) s(1) show "fileExt f \<in> set E" by simp
qed

lemma suffix_lower:
  assumes "e \<in> set MODEL_EXTS \<union> set IMAGE_EXTS" "suffix e f"
  shows "suffix e (toLowerCase f)"
proof -
  from assms(2) obtain p where "f = p @ e" by (auto simp: suffix_def)
  then have "toLowerCase f = toLowerCase p @ toLowerCase e" by (simp add: toLowerCase_def)
  with ext_shape [OF assms(1)] show ?thesis by (auto simp: suffix_def)
qed


lemma scenario_assets:
  "findAssetsInTree scenarioListing = ([''cad/arm.stl''], [''docs/photo.png''])"
  "webModels scenarioListing = [''cad/arm.stl'']"
  "webImages scenarioListing = [''docs/photo.png'']"
  "a_models (detectAssets scenarioDir) = [''cad/arm.stl'']"
  "a_images (detectAssets scenarioDir) = [''docs/photo.png'']"
  by code_simp+

text \<open>What holds of the two remote variants. For a path that contains a dot,
  \<open>findAssetsInTree\<close> of generate.ts classifies it as a model exactly when it is in the
  listing and ends, in lower case, with one of the six model extensions, whatever its
  directory; and as an image exactly when it ends, in lower case, with one of the six
  image extensions and starts with one of the five directories. A path the web variant
  classifies as a model ends with a model extension as written; one it classifies as an
  image ends with an image extension as written and starts with one of the
  directories.\<close>

lemma remote_asset_classification:
  "(CHR ''.'' \<in> set f \<longrightarrow>
      (f \<in> set (fst (findAssetsInTree files))
         \<longleftrightarrow> f \<in> set files \<and> (\<exists>e\<in>set MODEL_EXTS. suffix e (toLowerCase f))))
   \<and> (CHR ''.'' \<in> set f \<longrightarrow>
      (f \<in> set (snd (findAssetsInTree files))
         \<longleftrightarrow> f \<in> set files \<and> (\<exists>e\<in>set IMAGE_EXTS. suffix e (toLowerCase f))
             \<and> (\<exists>d\<in>set IMAGE_DIRS. prefix d f)))
   \<and> (f \<in> set (webModels files) \<longleftrightarrow> f \<in> set files \<and> (\<exists>e\<in>set MODEL_EXTS. suffix e f))
   \<and> (f \<in> set (webImages files)
        \<longleftrightarrow> f \<in> set files \<and> (\<exists>e\<in>set IMAGE_EXTS. suffix e f)
            \<and> (\<exists>d\<in>set IMAGE_DIRS. prefix d f))"
proof -
  have m: "CHR ''.'' \<in> set f \<longrightarrow>
      (f \<in> set (fst (findAssetsInTree files))
         \<longleftrightarrow> f \<in> set files \<and> (\<exists>e\<in>set MODEL_EXTS. suffix e (toLowerCase f)))"
    using fileExt_in_exts [of f MODEL_EXTS] by (auto simp: findAssetsInTree_filter)
  have i: "CHR ''.'' \<in> set f \<longrightarrow>
      (f \<in> set (snd (findAssetsInTree files))
         \<longleftrightarrow> f \<in> set files \<and> (\<exists>e\<in>set IMAGE_EXTS. suffix e (toLowerCase f))
             \<and> (\<exists>d\<in>set IMAGE_DIRS. prefix d f))"
    using fileExt_in_exts [of f IMAGE_EXTS] by (auto simp: findAssetsInTree_filter)
  have wm: "f \<in> set (webModels files) \<longleftrightarrow> f \<in> set files \<and> (\<exists>e\<in>set MODEL_EXTS. suffix e f)"
    by (auto simp: webModels_def list_ex_iff endsWith_def)
  have wi: "f \<in> set (webImages files)
        \<longleftrightarrow> f \<in> set files \<and> (\<exists>e\<in>set IMAGE_EXTS. suffix e f)
            \<and> (\<exists>d\<in>set IMAGE_DIRS. prefix d f)"
    by (auto simp: webImages_def list_ex_iff endsWith_def startsWith_def)
  from m i wm wi show ?thesis by blast
qed

text \<open>
  Claim C8 at concrete listings. The listing of the scenario gives the images
  \<open>docs/photo.png\<close> and the models \<open>cad/arm.stl\<close> in all three variants, as the claim
  says. The general rule of the claim is not followed in three places:
  the web variant matches the extension as written, so it does not classify
  \<open>cad/ARM.STL\<close> as a model, which generate.ts and the local detector both do;
  the local detector classifies the image \<open>logo.png\<close> at the top of the repository,
  which lies under none of the asset directories;
  and generate.ts classifies a file named \<open>stl\<close>, which has no extension, as a model.
\<close>

theorem asset_rules_not_followed:
  "findAssetsInTree scenarioListing = ([''cad/arm.stl''], [''docs/photo.png''])
   \<and> webModels scenarioListing = [''cad/arm.stl'']
   \<and> webImages scenarioListing = [''docs/photo.png'']
   \<and> a_models (detectAssets scenarioDir) = [''cad/arm.stl'']
   \<and> a_images (detectAssets scenarioDir) = [''docs/photo.png'']
   \<and> suffix ''.stl'' (toLowerCase ''cad/ARM.STL'')
   \<and> webModels [''cad/ARM.STL''] = []
   \<and> fst (findAssetsInTree [''cad/ARM.STL'']) = [''cad/ARM.STL'']
   \<and> a_models (detectAssets [Dir ''cad'' [File ''ARM.STL'']]) = [''cad/ARM.STL'']
   \<and> a_images (detectAssets [File ''logo.png'', Dir ''docs'' [File ''Photo.PNG'']])
       = [''logo.png'', ''docs/Photo.PNG'']
   \<and> list_all (\<lambda>d. \<not> prefix d ''logo.png'') (map (\<lambda>d. d @ ''/'') IMAGE_DIRS_local)
   \<and> extname ''stl'' = [] \<and> CHR ''.'' \<notin> set ''stl''
   \<and> fst (findAssetsInTree [''stl'']) = [''stl'']"
  by code_simp

section \<open>The update command\<close>





























end
